theory Spec2Isabelle
  imports Complex_Main "HOL-Library.Sublist"
begin

section \<open>JavaScript values\<close>

text \<open>
  The client helpers \<^verbatim>\<open>sendData\<close> and \<^verbatim>\<open>receiveData\<close> (and the older
  \<^verbatim>\<open>submitSensorData\<close>) are dynamically typed: every argument may be any JavaScript
  value, and the code branches on truthiness, on \<^verbatim>\<open>!== undefined\<close> and on implicit
  coercions. The model therefore works on a datatype of JavaScript data values: the
  primitives, arrays, and plain data objects as association lists in property order
  (the first binding of a key is the property's value).

  A number is \<^verbatim>\<open>NaN\<close>, an infinity (the flag says negative) or a finite value, which is
  kept as the exact rational it denotes. Every finite double is such a rational, so a
  statement about all \<open>Finite x\<close> covers all finite doubles. The two zeros are not
  told apart: both are falsy and \<^verbatim>\<open>toFixed\<close> prints both without a sign, and nothing
  else in this program looks at the sign of zero.

  Strings are lists of 8-bit characters standing for code units; strings with code
  units above 255 are outside the model. The case mappings below are the ASCII ones, so
  the model is exact on ASCII strings. JavaScript maps no code unit from 128 to 255 to
  an upper-case form containing a character of \<^verbatim>\<open>0-9A-F\<close>, so the stripped hex string
  that \<^verbatim>\<open>normalizeMac\<close> computes is exact on every 8-bit string.
\<close>

datatype jsnum = NaN | Infinity bool | Finite rat

datatype jsval =
    Undefined
  | Null
  | Bool bool
  | Num jsnum
  | Str string
  | Arr "jsval list"
  | Obj "(string \<times> jsval) list"

text \<open>
  What a JavaScript function throws: the engine's own \<^verbatim>\<open>TypeError\<close>,
  \<^verbatim>\<open>RangeError\<close> and \<^verbatim>\<open>SyntaxError\<close>, or an arbitrary value thrown by a callee
  (a rejected \<^verbatim>\<open>fetch\<close>, an \<^verbatim>\<open>Error\<close> built by the program).
  A function that can throw returns \<open>js_error + 'a\<close>, with \<open>Inl\<close> for the throw.
\<close>

datatype js_error = TypeError | RangeError | SyntaxError | Thrown jsval

text \<open>
  Built-ins of the engine whose results depend on binary floating point, on a full JSON
  grammar or on the engine's wording are parameters of the model:
  \<^item> \<open>StringToNumber\<close>: the numeric value of a string (\<^verbatim>\<open>Number("23.5")\<close>), rounded to
    a double by the engine;
  \<^item> \<open>FiniteToString\<close>: \<^verbatim>\<open>String(x)\<close> of a finite number (the shortest digits that
    round back to it);
  \<^item> \<open>JSON_parse\<close>: \<^verbatim>\<open>JSON.parse\<close>, \<open>None\<close> when it throws its \<^verbatim>\<open>SyntaxError\<close>;
  \<^item> \<open>EngineMessage\<close>: the \<^verbatim>\<open>message\<close> text the engine gives an error of its own;
  \<^item> \<open>PercentEncode\<close>: the percent-encoding that \<^verbatim>\<open>encodeURIComponent\<close> applies to
    a string. It throws only on a lone surrogate, which no string of the model holds.
\<close>

record builtins =
  StringToNumber :: "string \<Rightarrow> jsnum"
  FiniteToString :: "rat \<Rightarrow> string"
  JSON_parse :: "string \<Rightarrow> jsval option"
  EngineMessage :: "js_error \<Rightarrow> string"
  PercentEncode :: "string \<Rightarrow> string"

text \<open>Sequencing of computations that may throw: the first throw wins.\<close>

definition then_js :: "js_error + 'a \<Rightarrow> ('a \<Rightarrow> js_error + 'b) \<Rightarrow> js_error + 'b" where
  "then_js m f = (case m of Inl e \<Rightarrow> Inl e | Inr x \<Rightarrow> f x)"

subsection \<open>Truthiness, property access, coercion to string\<close>

fun truthy :: "jsval \<Rightarrow> bool" where
  "truthy Undefined = False"
| "truthy Null = False"
| "truthy (Bool b) = b"
| "truthy (Num NaN) = False"
| "truthy (Num (Infinity neg)) = True"
| "truthy (Num (Finite x)) = (x \<noteq> 0)"
| "truthy (Str s) = (s \<noteq> [])"
| "truthy (Arr xs) = True"
| "truthy (Obj kvs) = True"

text \<open>\<^verbatim>\<open>a || b\<close> yields \<^verbatim>\<open>a\<close> when it is truthy and \<^verbatim>\<open>b\<close> otherwise.\<close>

definition js_or :: "jsval \<Rightarrow> jsval \<Rightarrow> jsval" where
  "js_or a b = (if truthy a then a else b)"

text \<open>
  \<^verbatim>\<open>v[k]\<close> and \<^verbatim>\<open>v.k\<close>, for the property names this program reads (\<^verbatim>\<open>board\<close>,
  \<^verbatim>\<open>feeds\<close>, \<^verbatim>\<open>info1\<close>.., \<^verbatim>\<open>value1\<close>.., \<^verbatim>\<open>info\<close>, \<^verbatim>\<open>value\<close>, \<^verbatim>\<open>message\<close> and the
  board metadata): reading a property of \<^verbatim>\<open>undefined\<close> or \<^verbatim>\<open>null\<close> throws a
  \<^verbatim>\<open>TypeError\<close>; an object yields the property or \<^verbatim>\<open>undefined\<close>; a primitive or an
  array has none of these names and yields \<^verbatim>\<open>undefined\<close>.
\<close>

definition own_prop :: "(string \<times> jsval) list \<Rightarrow> string \<Rightarrow> jsval" where
  "own_prop kvs k = (case map_of kvs k of None \<Rightarrow> Undefined | Some v \<Rightarrow> v)"

fun get_prop :: "jsval \<Rightarrow> string \<Rightarrow> js_error + jsval" where
  "get_prop Undefined k = Inl TypeError"
| "get_prop Null k = Inl TypeError"
| "get_prop (Obj kvs) k = Inr (own_prop kvs k)"
| "get_prop v k = Inr Undefined"

text \<open>
  \<^verbatim>\<open>o.k = v\<close> on a plain object: an existing property keeps its place, a new one is
  added last.
\<close>

fun set_own :: "(string \<times> jsval) list \<Rightarrow> string \<Rightarrow> jsval \<Rightarrow> (string \<times> jsval) list" where
  "set_own [] k v = [(k, v)]"
| "set_own ((k', v') # kvs) k v = (if k' = k then (k, v) # kvs else (k', v') # set_own kvs k v)"

text \<open>\<^verbatim>\<open>Array.prototype.join\<close> on strings.\<close>

fun join :: "string \<Rightarrow> string list \<Rightarrow> string" where
  "join sep [] = []"
| "join sep [s] = s"
| "join sep (s # t # ss) = s @ sep @ join sep (t # ss)"

definition Number_toString :: "builtins \<Rightarrow> jsnum \<Rightarrow> string" where
  "Number_toString B n =
     (case n of
        NaN \<Rightarrow> ''NaN''
      | Infinity neg \<Rightarrow> (if neg then ''-Infinity'' else ''Infinity'')
      | Finite x \<Rightarrow> FiniteToString B x)"

text \<open>
  \<^verbatim>\<open>String(v)\<close>, the conversion \<^verbatim>\<open>ToString\<close> that template literals and
  \<^verbatim>\<open>encodeURIComponent\<close> apply as well. A plain object is converted by its
  \<^verbatim>\<open>toString\<close> method: the inherited one prints \<^verbatim>\<open>[object Object]\<close>, but an own
  property named \<^verbatim>\<open>toString\<close> hides it, and since no data value can be called the
  conversion then throws a \<^verbatim>\<open>TypeError\<close> (the inherited \<^verbatim>\<open>valueOf\<close> returns the
  object itself and does not help; an own \<^verbatim>\<open>valueOf\<close> changes nothing). An array
  prints its elements joined by commas, \<^verbatim>\<open>null\<close> and \<^verbatim>\<open>undefined\<close> elements as
  empty strings, and throws when converting an element throws.
\<close>

fun String_js :: "builtins \<Rightarrow> jsval \<Rightarrow> js_error + string"
  and String_elements :: "builtins \<Rightarrow> jsval list \<Rightarrow> js_error + string list" where
  "String_js B Undefined = Inr ''undefined''"
| "String_js B Null = Inr ''null''"
| "String_js B (Bool b) = Inr (if b then ''true'' else ''false'')"
| "String_js B (Num n) = Inr (Number_toString B n)"
| "String_js B (Str s) = Inr s"
| "String_js B (Arr xs) = then_js (String_elements B xs) (\<lambda>ss. Inr (join '','' ss))"
| "String_js B (Obj kvs) =
     (if map_of kvs ''toString'' \<noteq> None then Inl TypeError else Inr ''[object Object]'')"
| "String_elements B [] = Inr []"
| "String_elements B (x # xs) =
     then_js (if x = Undefined \<or> x = Null then Inr [] else String_js B x) (\<lambda>s.
     then_js (String_elements B xs) (\<lambda>ss. Inr (s # ss)))"

subsection \<open>Case mapping and the two regular expressions\<close>

definition toUpper_char :: "char \<Rightarrow> char" where
  "toUpper_char c =
     (case map_of (zip ''abcdefghijklmnopqrstuvwxyz'' ''ABCDEFGHIJKLMNOPQRSTUVWXYZ'') c of
        Some u \<Rightarrow> u
      | None \<Rightarrow> c)"

definition toUpperCase :: "string \<Rightarrow> string" where
  "toUpperCase s = map toUpper_char s"

definition toLower_char :: "char \<Rightarrow> char" where
  "toLower_char c =
     (case map_of (zip ''ABCDEFGHIJKLMNOPQRSTUVWXYZ'' ''abcdefghijklmnopqrstuvwxyz'') c of
        Some l \<Rightarrow> l
      | None \<Rightarrow> c)"

definition toLowerCase :: "string \<Rightarrow> string" where
  "toLowerCase s = map toLower_char s"

text \<open>The character class \<^verbatim>\<open>[0-9A-F]\<close>.\<close>

definition is_hex_upper :: "char \<Rightarrow> bool" where
  "is_hex_upper c = (c \<in> set ''0123456789ABCDEF'')"

text \<open>\<^verbatim>\<open>s.replace(/[^0-9A-F]/g, '')\<close>: every character outside the class is dropped.\<close>

definition replace_non_hex :: "string \<Rightarrow> string" where
  "replace_non_hex s = filter is_hex_upper s"

text \<open>
  \<^verbatim>\<open>s.match(/.{1,2}/g)\<close>: the successive greedy matches of one or two characters
  other than line terminators, or \<^verbatim>\<open>null\<close> (here \<open>None\<close>) when nothing matches.
\<close>

definition line_terminator :: "char \<Rightarrow> bool" where
  "line_terminator c = (c = CHR 0x0A \<or> c = CHR 0x0D)"

fun match_dot12 :: "string \<Rightarrow> string list" where
  "match_dot12 [] = []"
| "match_dot12 [a] = (if line_terminator a then [] else [[a]])"
| "match_dot12 (a # b # cs) =
     (if line_terminator a then match_dot12 (b # cs)
      else if line_terminator b then [a] # match_dot12 cs
      else [a, b] # match_dot12 cs)"

definition String_match :: "string \<Rightarrow> string list option" where
  "String_match s = (case match_dot12 s of [] \<Rightarrow> None | m # ms \<Rightarrow> Some (m # ms))"

section \<open>The MAC normalizer\<close>

text \<open>
  \<^verbatim>\<open>
  function normalizeMac(mac){
    if(!mac) return mac;
    const hex = String(mac).toUpperCase().replace(/[^0-9A-F]/g, '');
    if(hex.length !== 12) return mac; // return original if unexpected length
    return hex.match(/.{1,2}/g).join(':');
  }
  \<close>
  \<^verbatim>\<open>String(mac)\<close> throws for a value that cannot be converted. Calling \<^verbatim>\<open>join\<close>
  on the \<^verbatim>\<open>null\<close> of a failed match would throw a \<^verbatim>\<open>TypeError\<close>; the model keeps
  that branch.
\<close>

definition normalizeMac :: "builtins \<Rightarrow> jsval \<Rightarrow> js_error + jsval" where
  "normalizeMac B mac =
     (if \<not> truthy mac then Inr mac
      else
        then_js (String_js B mac) (\<lambda>str.
          let hex = replace_non_hex (toUpperCase str) in
          if length hex \<noteq> 12 then Inr mac
          else (case String_match hex of
                  None \<Rightarrow> Inl TypeError
                | Some groups \<Rightarrow> Inr (Str (join '':'' groups)))))"

section \<open>Numbers: coercion and \<^verbatim>\<open>toFixed\<close>\<close>

text \<open>
  \<^verbatim>\<open>Number(v)\<close>, the conversion \<^verbatim>\<open>ToNumber\<close>. A string goes through the engine's
  \<open>StringToNumber\<close>; an array or an object is first turned into its string, and the
  conversion throws when that throws.
\<close>

fun Number_js :: "builtins \<Rightarrow> jsval \<Rightarrow> js_error + jsnum" where
  "Number_js B Undefined = Inr NaN"
| "Number_js B Null = Inr (Finite 0)"
| "Number_js B (Bool b) = Inr (Finite (if b then 1 else 0))"
| "Number_js B (Num n) = Inr n"
| "Number_js B (Str s) = Inr (StringToNumber B s)"
| "Number_js B (Arr xs) = then_js (String_js B (Arr xs)) (\<lambda>s. Inr (StringToNumber B s))"
| "Number_js B (Obj kvs) = then_js (String_js B (Obj kvs)) (\<lambda>s. Inr (StringToNumber B s))"

text \<open>Decimal digits of a natural number (\<^verbatim>\<open>String(i)\<close> of a small integer).\<close>

definition digit_char :: "nat \<Rightarrow> char" where
  "digit_char d = ''0123456789'' ! d"

fun digits :: "nat \<Rightarrow> string" where
  "digits n = (if n < 10 then [digit_char n] else digits (n div 10) @ [digit_char (n mod 10)])"

declare digits.simps [simp del]

text \<open>Reading a digit string back as a number.\<close>

definition is_digit :: "char \<Rightarrow> bool" where
  "is_digit c = (c \<in> set ''0123456789'')"

definition digit_value :: "char \<Rightarrow> nat" where
  "digit_value c = length (takeWhile (\<lambda>d. d \<noteq> c) ''0123456789'')"

definition digits_value :: "string \<Rightarrow> nat" where
  "digits_value s = foldl (\<lambda>n c. 10 * n + digit_value c) 0 s"

text \<open>
  \<^verbatim>\<open>ToIntegerOrInfinity\<close>: \<^verbatim>\<open>NaN\<close> becomes 0, a finite number is truncated towards
  zero, an infinity stays infinite (\<open>None\<close>).
\<close>

definition ToIntegerOrInfinity :: "jsnum \<Rightarrow> int option" where
  "ToIntegerOrInfinity n =
     (case n of
        NaN \<Rightarrow> Some 0
      | Infinity neg \<Rightarrow> None
      | Finite x \<Rightarrow> Some (if x < 0 then - \<lfloor>- x\<rfloor> else \<lfloor>x\<rfloor>))"

text \<open>
  \<^verbatim>\<open>Number.prototype.toFixed\<close>, step by step as ECMAScript gives it. For a finite
  \<open>x\<close> below \<open>10\<^sup>2\<^sup>1\<close> in magnitude: \<open>n\<close> is the integer nearest to
  \<open>x * 10\<^sup>f\<close> (the larger one on a tie), \<open>m\<close> its digits, padded with zeros on the
  left to \<open>f + 1\<close> digits, and the point goes before the last \<open>f\<close> digits. A magnitude
  of \<open>10\<^sup>2\<^sup>1\<close> or more prints as \<^verbatim>\<open>String(x)\<close> does (exponent notation).
  The argument is converted to a number first, which can throw, and a digit count
  outside 0..100 is a \<^verbatim>\<open>RangeError\<close>.
\<close>

definition insert_point :: "string \<Rightarrow> nat \<Rightarrow> string" where
  "insert_point m f =
     (let m' = (if length m \<le> f then replicate (f + 1 - length m) CHR ''0'' @ m else m);
          k = length m'
      in take (k - f) m' @ ''.'' @ drop (k - f) m')"

definition fixed_digits :: "nat \<Rightarrow> nat \<Rightarrow> string" where
  "fixed_digits n f = (let m = digits n in if f \<noteq> 0 then insert_point m f else m)"

definition fixed_notation :: "builtins \<Rightarrow> rat \<Rightarrow> nat \<Rightarrow> string" where
  "fixed_notation B r f =
     (let s = (if r < 0 then ''-'' else []);
          x = \<bar>r\<bar>
      in if x \<ge> 10 ^ 21 then s @ FiniteToString B x
         else
           let n = nat \<lfloor>x * 10 ^ f + 1 / 2\<rfloor>
           in s @ fixed_digits n f)"

definition toFixed :: "builtins \<Rightarrow> jsnum \<Rightarrow> jsval \<Rightarrow> js_error + string" where
  "toFixed B x fractionDigits =
     then_js (Number_js B fractionDigits) (\<lambda>digits_wanted.
       case ToIntegerOrInfinity digits_wanted of
         None \<Rightarrow> Inl RangeError
       | Some f \<Rightarrow>
           if f < 0 \<or> f > 100 then Inl RangeError
           else (case x of
                   Finite r \<Rightarrow> Inr (fixed_notation B r (nat f))
                 | _ \<Rightarrow> Inr (Number_toString B x)))"

section \<open>Control flow helpers\<close>

text \<open>A parameter default (\<^verbatim>\<open>boardInfo = {}\<close>) applies to \<^verbatim>\<open>undefined\<close> only.\<close>

definition default_param :: "jsval \<Rightarrow> jsval \<Rightarrow> jsval" where
  "default_param arg d = (if arg = Undefined then d else arg)"

text \<open>
  \<^verbatim>\<open>xs.map(f)\<close> with a callback that may throw. Only an array has a \<^verbatim>\<open>map\<close>
  method; calling it on anything else is a \<^verbatim>\<open>TypeError\<close>.
\<close>

fun map_js :: "(jsval \<Rightarrow> js_error + jsval) \<Rightarrow> jsval list \<Rightarrow> js_error + jsval list" where
  "map_js f [] = Inr []"
| "map_js f (x # xs) = then_js (f x) (\<lambda>y. then_js (map_js f xs) (\<lambda>ys. Inr (y # ys)))"

fun Array_map :: "jsval \<Rightarrow> (jsval \<Rightarrow> js_error + jsval) \<Rightarrow> js_error + jsval" where
  "Array_map (Arr xs) f = then_js (map_js f xs) (\<lambda>ys. Inr (Arr ys))"
| "Array_map v f = Inl TypeError"

text \<open>
  \<^verbatim>\<open>for (const x of v)\<close>: an array yields its elements, a string its characters;
  nothing else among the data values is iterable.
\<close>

fun iterate :: "jsval \<Rightarrow> js_error + jsval list" where
  "iterate (Arr xs) = Inr xs"
| "iterate (Str s) = Inr (map (\<lambda>c. Str [c]) s)"
| "iterate v = Inl TypeError"

text \<open>\<^verbatim>\<open>o.k = v\<close>; on a primitive the assignment has no effect.\<close>

fun set_prop :: "jsval \<Rightarrow> string \<Rightarrow> jsval \<Rightarrow> jsval" where
  "set_prop (Obj kvs) k v = Obj (set_own kvs k v)"
| "set_prop w k v = w"

text \<open>\<^verbatim>\<open>s.includes(p)\<close>.\<close>

fun String_includes :: "string \<Rightarrow> string \<Rightarrow> bool" where
  "String_includes [] p = (p = [])"
| "String_includes (c # cs) p = (prefix p (c # cs) \<or> String_includes cs p)"

section \<open>The transport\<close>

text \<open>
  \<^verbatim>\<open>fetch\<close> and \<^verbatim>\<open>res.text()\<close> are the outside world: either the promise is
  rejected with some value, or a response arrives with its \<^verbatim>\<open>ok\<close> flag, status,
  status text and body text. What \<^verbatim>\<open>fetch\<close> does with the URL and the optional
  \<^verbatim>\<open>https.Agent\<close> is part of that outside world; anything thrown inside the
  \<^verbatim>\<open>try\<close> block before the body text is there counts as a rejection with the thrown
  value.

  The repository holds \<^verbatim>\<open>sendData\<close> and \<^verbatim>\<open>receiveData\<close> twice, for Node and for
  the browser. The two copies share \<^verbatim>\<open>normalizeMac\<close>, the statement that normalizes
  \<^verbatim>\<open>boardInfo.deviceMAC\<close>, the payload literal, the parsing of the response and the
  flattening loops word for word; the browser copy differs in its URL, in the wording of
  its hints, and in sending \<^verbatim>\<open>{sendKey, boardKey, sensors, boardInfo}\<close> instead of the
  payload when a proxy is set. The model follows the Node copy.
\<close>

datatype fetch_outcome = Rejected jsval | Response bool nat string string

text \<open>\<^verbatim>\<open>err.message\<close> of a caught error.\<close>

fun error_message :: "builtins \<Rightarrow> js_error \<Rightarrow> js_error + jsval" where
  "error_message B (Thrown v) = get_prop v ''message''"
| "error_message B e = Inr (Str (EngineMessage B e))"

text \<open>
  The \<^verbatim>\<open>catch (err)\<close> block shared by \<^verbatim>\<open>sendData\<close> and \<^verbatim>\<open>receiveData\<close>:
  \<^verbatim>\<open>
    const hint = (typeof err.message === 'string'
                  && err.message.toLowerCase().includes('failed to fetch'))
      ? 'Failed to fetch ... Use server-side call or a proxy.'
      : err.message;
    return { ok: false, status: 0, error: hint };
  \<close>
  The dash of the hint text is written as its three UTF-8 bytes.
\<close>

definition fetch_hint :: string where
  "fetch_hint =
     ''Failed to fetch '' @ [CHR 0xE2, CHR 0x80, CHR 0x94] @
     '' network or CORS issue when called from a browser. Use server-side call or a proxy.''"

definition hint_of :: "jsval \<Rightarrow> jsval" where
  "hint_of message =
     (case message of
        Str m \<Rightarrow> if String_includes (toLowerCase m) ''failed to fetch''
                 then Str fetch_hint else message
      | _ \<Rightarrow> message)"

definition failure_result :: "builtins \<Rightarrow> js_error \<Rightarrow> js_error + jsval" where
  "failure_result B err =
     then_js (error_message B err) (\<lambda>message.
       Inr (Obj [(''ok'', Bool False), (''status'', Num (Finite 0)),
                 (''error'', hint_of message)]))"

section \<open>The request URLs\<close>

text \<open>
  Both functions build their URL first, outside any \<^verbatim>\<open>try\<close> block, with a template
  literal: \<^verbatim>\<open>base\<close> and the results of \<^verbatim>\<open>encodeURIComponent\<close> are converted to
  strings from left to right, and \<^verbatim>\<open>encodeURIComponent\<close> converts its argument to a
  string before encoding it. \<^verbatim>\<open>overrideSendUrl\<close> and \<^verbatim>\<open>overrideReceiveUrl\<close> are the
  module variables that \<^verbatim>\<open>setBaseUrls\<close> sets, \<^verbatim>\<open>null\<close> at the start.
  \<^verbatim>\<open>
    const base = overrideSendUrl || DEFAULT_SEND_URL;
    const url = `${base}sendKey=${encodeURIComponent(sendKey)}&boardKey=${encodeURIComponent(boardKey)}`;
  \<close>
\<close>

definition DEFAULT_SEND_URL :: string where
  "DEFAULT_SEND_URL = ''https://api.consentiumiot.com/v2/updateData?''"

definition DEFAULT_RECEIVE_URL :: string where
  "DEFAULT_RECEIVE_URL = ''https://api.consentiumiot.com/getData?''"

definition encodeURIComponent :: "builtins \<Rightarrow> jsval \<Rightarrow> js_error + string" where
  "encodeURIComponent B v = then_js (String_js B v) (\<lambda>s. Inr (PercentEncode B s))"

definition send_url :: "builtins \<Rightarrow> jsval \<Rightarrow> jsval \<Rightarrow> jsval \<Rightarrow> js_error + string" where
  "send_url B overrideSendUrl sendKey boardKey =
     then_js (String_js B (js_or overrideSendUrl (Str DEFAULT_SEND_URL))) (\<lambda>base.
     then_js (encodeURIComponent B sendKey) (\<lambda>encodedSendKey.
     then_js (encodeURIComponent B boardKey) (\<lambda>encodedBoardKey.
       Inr (base @ ''sendKey='' @ encodedSendKey @ ''&boardKey='' @ encodedBoardKey))))"

text \<open>
  \<^verbatim>\<open>
    const base = overrideReceiveUrl || DEFAULT_RECEIVE_URL;
    const url = `${base}recents=${recents ? "true" : "false"}&receiveKey=${encodeURIComponent(receiveKey)}&boardKey=${encodeURIComponent(boardKey)}`;
  \<close>
\<close>

definition receive_url ::
  "builtins \<Rightarrow> jsval \<Rightarrow> jsval \<Rightarrow> jsval \<Rightarrow> jsval \<Rightarrow> js_error + string" where
  "receive_url B overrideReceiveUrl receiveKey boardKey recents_arg =
     (let recents = default_param recents_arg (Bool True) in
      then_js (String_js B (js_or overrideReceiveUrl (Str DEFAULT_RECEIVE_URL))) (\<lambda>base.
      then_js (encodeURIComponent B receiveKey) (\<lambda>encodedReceiveKey.
      then_js (encodeURIComponent B boardKey) (\<lambda>encodedBoardKey.
        Inr (base @ ''recents='' @ (if truthy recents then ''true'' else ''false'') @
             ''&receiveKey='' @ encodedReceiveKey @ ''&boardKey='' @ encodedBoardKey)))))"

section \<open>Retrieval: \<^verbatim>\<open>receiveData\<close> and the feed flattening loop\<close>

text \<open>
  \<^verbatim>\<open>
    for (let i = 1; i <= 8; i++) {
      const infoKey = `info${i}`;
      const valueKey = `value${i}`;
      if (board[infoKey] !== undefined && feed[valueKey] !== undefined) {
        result.push({ info: board[infoKey], value: Number(feed[valueKey]) });
      }
    }
  \<close>
  The loop threads \<^verbatim>\<open>result\<close>; \<^verbatim>\<open>&&\<close> reads \<^verbatim>\<open>feed[valueKey]\<close> only when the
  label is defined, so a \<^verbatim>\<open>null\<close> feed throws only under a labelled index; and
  \<^verbatim>\<open>Number\<close> throws on a value that cannot be converted.
\<close>

definition infoKey :: "nat \<Rightarrow> string" where
  "infoKey i = ''info'' @ digits i"

definition valueKey :: "nat \<Rightarrow> string" where
  "valueKey i = ''value'' @ digits i"

function index_loop ::
  "builtins \<Rightarrow> jsval \<Rightarrow> jsval \<Rightarrow> nat \<Rightarrow> jsval list \<Rightarrow> js_error + jsval list" where
  "index_loop B board feed i result =
     (if i \<le> 8 then
        then_js (get_prop board (infoKey i)) (\<lambda>label.
          if label \<noteq> Undefined then
            then_js (get_prop feed (valueKey i)) (\<lambda>v.
              if v \<noteq> Undefined then
                then_js (Number_js B v) (\<lambda>number.
                  index_loop B board feed (i + 1)
                    (result @ [Obj [(''info'', label), (''value'', Num number)]]))
              else index_loop B board feed (i + 1) result)
          else index_loop B board feed (i + 1) result)
      else Inr result)"
  by pat_completeness auto
termination
  by (relation "measure (\<lambda>(B, board, feed, i, result). 9 - i)") auto

declare index_loop.simps [simp del]

text \<open>\<^verbatim>\<open>for (const feed of feeds) { ... }\<close> over the elements the iteration yields.\<close>

fun feed_loop :: "builtins \<Rightarrow> jsval \<Rightarrow> jsval list \<Rightarrow> jsval list \<Rightarrow> js_error + jsval list" where
  "feed_loop B board [] result = Inr result"
| "feed_loop B board (feed # feeds) result =
     then_js (index_loop B board feed 1 result) (\<lambda>result'. feed_loop B board feeds result')"

text \<open>
  The flattening block of \<^verbatim>\<open>receiveData\<close>, from \<^verbatim>\<open>const board = json.board || {}\<close>
  to the end of the loops; \<^verbatim>\<open>json\<close> is truthy there.
\<close>

definition flatten_feeds :: "builtins \<Rightarrow> jsval \<Rightarrow> js_error + jsval list" where
  "flatten_feeds B json =
     then_js (get_prop json ''board'') (\<lambda>b.
     then_js (get_prop json ''feeds'') (\<lambda>fs.
       let board = js_or b (Obj []);
           feeds = js_or fs (Arr [])
       in then_js (iterate feeds) (\<lambda>items. feed_loop B board items [])))"

text \<open>
  \<^verbatim>\<open>receiveData\<close> from its \<^verbatim>\<open>try\<close> statement on, given what the transport did. A
  body that does not parse, or parses to a falsy value, is returned raw; a throw inside
  the \<^verbatim>\<open>try\<close> block ends in the \<^verbatim>\<open>catch\<close> block, and a throw inside the
  \<^verbatim>\<open>catch\<close> block leaves the function.
\<close>

definition receiveData :: "builtins \<Rightarrow> fetch_outcome \<Rightarrow> js_error + jsval" where
  "receiveData B net =
     (case net of
        Rejected err \<Rightarrow> failure_result B (Thrown err)
      | Response ok status statusText text \<Rightarrow>
          let json = (case JSON_parse B text of None \<Rightarrow> Null | Some j \<Rightarrow> j) in
          if \<not> truthy json then
            Inr (Obj [(''ok'', Bool ok), (''status'', Num (Finite (of_nat status))),
                      (''body'', Str text)])
          else (case flatten_feeds B json of
                  Inl e \<Rightarrow> failure_result B e
                | Inr result \<Rightarrow>
                    Inr (Obj [(''ok'', Bool ok), (''status'', Num (Finite (of_nat status))),
                              (''feeds'', Arr result), (''body'', json)])))"

text \<open>
  A whole call \<^verbatim>\<open>receiveData(receiveKey, boardKey, recents)\<close>: the URL is built first,
  and a throw there leaves the function before anything is requested.
\<close>

definition receiveData_call ::
  "builtins \<Rightarrow> jsval \<Rightarrow> jsval \<Rightarrow> jsval \<Rightarrow> jsval \<Rightarrow> fetch_outcome \<Rightarrow> js_error + jsval" where
  "receiveData_call B overrideReceiveUrl receiveKey boardKey recents net =
     (case receive_url B overrideReceiveUrl receiveKey boardKey recents of
        Inl e \<Rightarrow> Inl e
      | Inr url \<Rightarrow> receiveData B net)"

section \<open>Submission: \<^verbatim>\<open>sendData\<close>\<close>

text \<open>
  \<^verbatim>\<open>if (boardInfo && boardInfo.deviceMAC)
      boardInfo.deviceMAC = normalizeMac(boardInfo.deviceMAC);\<close>
  The result is the object \<^verbatim>\<open>boardInfo\<close> refers to after the statement: the
  assignment writes into the caller's object.
\<close>

definition normalize_deviceMAC :: "builtins \<Rightarrow> jsval \<Rightarrow> js_error + jsval" where
  "normalize_deviceMAC B boardInfo =
     (if truthy boardInfo then
        then_js (get_prop boardInfo ''deviceMAC'') (\<lambda>mac.
          if truthy mac then
            then_js (normalizeMac B mac) (\<lambda>normalized.
              Inr (set_prop boardInfo ''deviceMAC'' normalized))
          else Inr boardInfo)
      else Inr boardInfo)"

text \<open>The callback \<^verbatim>\<open>s => ({ info: s.info, data: Number(s.value).toFixed(precision) })\<close>.\<close>

definition sensor_entry :: "builtins \<Rightarrow> jsval \<Rightarrow> jsval \<Rightarrow> js_error + jsval" where
  "sensor_entry B precision s =
     then_js (get_prop s ''info'') (\<lambda>label.
     then_js (get_prop s ''value'') (\<lambda>v.
     then_js (Number_js B v) (\<lambda>number.
     then_js (toFixed B number precision) (\<lambda>d.
       Inr (Obj [(''info'', label), (''data'', Str d)])))))"

text \<open>
  \<^verbatim>\<open>
  const payload = {
    sensors: { sensorData: sensors.map(...) },
    boardInfo: {
      firmwareVersion: boardInfo.firmwareVersion || "0.0",
      architecture: boardInfo.architecture || "unknown",
      deviceMAC: boardInfo.deviceMAC || "00:00:00:00:00:00",
      statusOTA: !!boardInfo.statusOTA,
      signalStrength: boardInfo.signalStrength || 0
    }
  };
  \<close>
\<close>

definition build_payload :: "builtins \<Rightarrow> jsval \<Rightarrow> jsval \<Rightarrow> jsval \<Rightarrow> js_error + jsval" where
  "build_payload B sensors boardInfo precision =
     then_js (Array_map sensors (sensor_entry B precision)) (\<lambda>sensorData.
     then_js (get_prop boardInfo ''firmwareVersion'') (\<lambda>firmwareVersion.
     then_js (get_prop boardInfo ''architecture'') (\<lambda>architecture.
     then_js (get_prop boardInfo ''deviceMAC'') (\<lambda>deviceMAC.
     then_js (get_prop boardInfo ''statusOTA'') (\<lambda>statusOTA.
     then_js (get_prop boardInfo ''signalStrength'') (\<lambda>signalStrength.
       Inr (Obj [(''sensors'', Obj [(''sensorData'', sensorData)]),
                 (''boardInfo'', Obj [
                    (''firmwareVersion'', js_or firmwareVersion (Str ''0.0'')),
                    (''architecture'', js_or architecture (Str ''unknown'')),
                    (''deviceMAC'', js_or deviceMAC (Str ''00:00:00:00:00:00'')),
                    (''statusOTA'', Bool (truthy statusOTA)),
                    (''signalStrength'', js_or signalStrength (Num (Finite 0)))])])))))))"

text \<open>
  The \<^verbatim>\<open>try\<close> block of \<^verbatim>\<open>sendData\<close>: the request goes out, the body text is
  parsed if it can be and kept raw if not.
\<close>

definition send_request :: "builtins \<Rightarrow> fetch_outcome \<Rightarrow> js_error + jsval" where
  "send_request B net =
     (case net of
        Rejected err \<Rightarrow> failure_result B (Thrown err)
      | Response ok status statusText bodyText \<Rightarrow>
          Inr (Obj [(''ok'', Bool ok), (''status'', Num (Finite (of_nat status))),
                    (''body'', (case JSON_parse B bodyText of
                                  None \<Rightarrow> Str bodyText
                                | Some parsed \<Rightarrow> parsed))]))"

text \<open>
  What \<^verbatim>\<open>sendData(sendKey, boardKey, sensors, boardInfo, precision)\<close> does, once its
  URL is built, that can be seen from outside: the object \<^verbatim>\<open>boardInfo\<close> refers to
  afterwards, the document handed to \<^verbatim>\<open>fetch\<close> (if the call got that far) and what
  the call returns or throws. The MAC statement and the payload literal stand before
  the \<^verbatim>\<open>try\<close> block, so a throw there leaves the function.
\<close>

record send_effects =
  boardInfo_after :: jsval
  request_body :: "jsval option"
  outcome :: "js_error + jsval"

definition sendData ::
  "builtins \<Rightarrow> jsval \<Rightarrow> jsval \<Rightarrow> jsval \<Rightarrow> fetch_outcome \<Rightarrow> send_effects" where
  "sendData B sensors boardInfo_arg precision_arg net =
     (let boardInfo = default_param boardInfo_arg (Obj []);
          precision = default_param precision_arg (Num (Finite 4))
      in case normalize_deviceMAC B boardInfo of
           Inl e \<Rightarrow> \<lparr>boardInfo_after = boardInfo, request_body = None, outcome = Inl e\<rparr>
         | Inr boardInfo' \<Rightarrow>
             (case build_payload B sensors boardInfo' precision of
                Inl e \<Rightarrow> \<lparr>boardInfo_after = boardInfo', request_body = None, outcome = Inl e\<rparr>
              | Inr payload \<Rightarrow>
                  \<lparr>boardInfo_after = boardInfo', request_body = Some payload,
                   outcome = send_request B net\<rparr>))"

text \<open>
  A whole call of \<^verbatim>\<open>sendData\<close>: the URL is built first, and a throw there leaves the
  function with \<^verbatim>\<open>boardInfo\<close> untouched and nothing requested.
\<close>

definition sendData_call ::
  "builtins \<Rightarrow> jsval \<Rightarrow> jsval \<Rightarrow> jsval \<Rightarrow> jsval \<Rightarrow> jsval \<Rightarrow> jsval \<Rightarrow> fetch_outcome
     \<Rightarrow> send_effects" where
  "sendData_call B overrideSendUrl sendKey boardKey sensors boardInfo_arg precision_arg net =
     (case send_url B overrideSendUrl sendKey boardKey of
        Inl e \<Rightarrow> \<lparr>boardInfo_after = default_param boardInfo_arg (Obj []),
                  request_body = None, outcome = Inl e\<rparr>
      | Inr url \<Rightarrow> sendData B sensors boardInfo_arg precision_arg net)"

section \<open>The older entry point: \<^verbatim>\<open>submitSensorData\<close>\<close>

text \<open>
  \<^verbatim>\<open>submitSensorData(sendKey, boardKey, sensorArray, macAddress, architecture,
  firmwareVersion, statusOTA = false, signalStrength = null)\<close> builds its document from
  the arguments as they are and deletes a \<^verbatim>\<open>null\<close> signal strength.
\<close>

definition submit_payload ::
  "jsval \<Rightarrow> jsval \<Rightarrow> jsval \<Rightarrow> jsval \<Rightarrow> jsval \<Rightarrow> jsval \<Rightarrow> jsval" where
  "submit_payload sensorArray macAddress architecture firmwareVersion statusOTA_arg
       signalStrength_arg =
     (let statusOTA = default_param statusOTA_arg (Bool False);
          signalStrength = default_param signalStrength_arg Null
      in Obj [(''sensors'', Obj [(''sensorData'', sensorArray)]),
              (''boardInfo'', Obj ([
                 (''firmwareVersion'', firmwareVersion),
                 (''architecture'', architecture),
                 (''statusOTA'', statusOTA),
                 (''deviceMAC'', macAddress)] @
                 (if signalStrength = Null then [] else [(''signalStrength'', signalStrength)])))])"

text \<open>
  Its \<^verbatim>\<open>try\<close> block parses the body with \<^verbatim>\<open>response.json()\<close>, throws an
  \<^verbatim>\<open>Error\<close> on a status that is not ok, and its \<^verbatim>\<open>catch\<close> block logs
  \<^verbatim>\<open>error.message\<close> and throws the error again.
\<close>

definition Error_object :: "string \<Rightarrow> jsval" where
  "Error_object message = Obj [(''message'', Str message)]"

definition submit_request :: "builtins \<Rightarrow> fetch_outcome \<Rightarrow> js_error + jsval" where
  "submit_request B net =
     (let attempt =
        (case net of
           Rejected err \<Rightarrow> Inl (Thrown err)
         | Response ok status statusText text \<Rightarrow>
             (case JSON_parse B text of
                None \<Rightarrow> Inl SyntaxError
              | Some responseData \<Rightarrow>
                  if \<not> ok then
                    then_js (get_prop responseData ''message'') (\<lambda>message.
                    then_js (String_js B (js_or message (Str statusText))) (\<lambda>reason.
                      Inl (Thrown (Error_object
                        (''API request failed with status '' @ digits status @ '': '' @
                         reason)))))
                  else Inr responseData))
      in case attempt of
           Inl error \<Rightarrow> then_js (error_message B error) (\<lambda>logged. Inl error)
         | Inr responseData \<Rightarrow> Inr responseData)"

record submit_effects =
  submitted_body :: jsval
  submit_outcome :: "js_error + jsval"

definition submitSensorData ::
  "builtins \<Rightarrow> jsval \<Rightarrow> jsval \<Rightarrow> jsval \<Rightarrow> jsval \<Rightarrow> jsval \<Rightarrow> jsval \<Rightarrow> fetch_outcome
     \<Rightarrow> submit_effects" where
  "submitSensorData B sensorArray macAddress architecture firmwareVersion statusOTA
       signalStrength net =
     \<lparr>submitted_body =
        submit_payload sensorArray macAddress architecture firmwareVersion statusOTA
          signalStrength,
      submit_outcome = submit_request B net\<rparr>"

section \<open>An engine instance for concrete evaluation\<close>

text \<open>
  The theorems below hold for every choice of the built-in parameters. To evaluate the
  model at concrete inputs an instance is fixed. It reads a string of decimal digits
  as that integer (the empty string as 0, any other string as \<^verbatim>\<open>NaN\<close>), prints an
  integer by its digits, parses the texts \<^verbatim>\<open>null\<close>, \<^verbatim>\<open>{}\<close>, \<^verbatim>\<open>[]\<close> and
  \<^verbatim>\<open>{"feeds":5}\<close> as JSON and no other text, words every engine error alike and
  percent-encodes nothing. An engine agrees with it on digit strings, on integers below
  \<open>2\<^sup>5\<^sup>3\<close> and on keys made of letters and digits.
\<close>

definition scalar_feeds_body :: string where
  "scalar_feeds_body = ''{'' @ [CHR 0x22] @ ''feeds'' @ [CHR 0x22] @ '':5}''"

definition sample_engine :: builtins where
  "sample_engine =
     \<lparr>StringToNumber = (\<lambda>s. if list_all is_digit s then Finite (of_nat (digits_value s)) else NaN),
      FiniteToString = (\<lambda>x. (if x < 0 then ''-'' else []) @ digits (nat \<lfloor>\<bar>x\<bar>\<rfloor>)),
      JSON_parse = map_of [(''null'', Null), (''{}'', Obj []), (''[]'', Arr []),
                           (scalar_feeds_body, Obj [(''feeds'', Num (Finite 5))])],
      EngineMessage = (\<lambda>e. ''engine error''),
      PercentEncode = (\<lambda>s. s)\<rparr>"

section \<open>Notions used to state the properties\<close>

text \<open>
  The value of \<^verbatim>\<open>v[k]\<close> where reading it does not throw, the number \<^verbatim>\<open>Number(v)\<close>
  where the conversion does not throw, and the rule the specification gives for the
  flattening: index \<open>i\<close> of a feed yields a reading when both \<^verbatim>\<open>board["info" + i]\<close>
  and \<^verbatim>\<open>feed["value" + i]\<close> are defined, and the reading pairs the label with the
  numeric coercion of the value.
\<close>

definition prop_value :: "jsval \<Rightarrow> string \<Rightarrow> jsval" where
  "prop_value v k = (case get_prop v k of Inl e \<Rightarrow> Undefined | Inr x \<Rightarrow> x)"

definition completes :: "js_error + 'a \<Rightarrow> bool" where
  "completes m = (case m of Inl e \<Rightarrow> False | Inr x \<Rightarrow> True)"

definition number_value :: "builtins \<Rightarrow> jsval \<Rightarrow> jsnum" where
  "number_value B v = (case Number_js B v of Inl e \<Rightarrow> NaN | Inr n \<Rightarrow> n)"

definition emits :: "jsval \<Rightarrow> jsval \<Rightarrow> nat \<Rightarrow> bool" where
  "emits board feed i =
     (prop_value board (infoKey i) \<noteq> Undefined \<and> prop_value feed (valueKey i) \<noteq> Undefined)"

definition reading :: "builtins \<Rightarrow> jsval \<Rightarrow> jsval \<Rightarrow> nat \<Rightarrow> jsval" where
  "reading B board feed i =
     Obj [(''info'', prop_value board (infoKey i)),
          (''value'', Num (number_value B (prop_value feed (valueKey i))))]"

definition feed_readings :: "builtins \<Rightarrow> jsval \<Rightarrow> jsval \<Rightarrow> jsval list" where
  "feed_readings B board feed =
     map (reading B board feed) (filter (emits board feed) [1, 2, 3, 4, 5, 6, 7, 8])"

text \<open>
  A feed all of whose values at the emitting indices can be converted to numbers: none
  is an object with a property of its own named \<^verbatim>\<open>toString\<close>, or an array holding
  one.
\<close>

definition feed_converts :: "builtins \<Rightarrow> jsval \<Rightarrow> jsval \<Rightarrow> bool" where
  "feed_converts B board feed =
     list_all (\<lambda>i. completes (Number_js B (prop_value feed (valueKey i))))
       (filter (emits board feed) [1, 2, 3, 4, 5, 6, 7, 8])"

text \<open>The primitive values: everything but arrays and objects.\<close>

fun primitive :: "jsval \<Rightarrow> bool" where
  "primitive (Arr xs) = False"
| "primitive (Obj kvs) = False"
| "primitive v = True"

text \<open>The payload literal of \<^verbatim>\<open>sendData\<close> for a \<^verbatim>\<open>boardInfo\<close> that can be read.\<close>

definition payload_of :: "jsval \<Rightarrow> jsval \<Rightarrow> jsval" where
  "payload_of sensorData boardInfo =
     Obj [(''sensors'', Obj [(''sensorData'', sensorData)]),
          (''boardInfo'', Obj [
             (''firmwareVersion'', js_or (prop_value boardInfo ''firmwareVersion'') (Str ''0.0'')),
             (''architecture'', js_or (prop_value boardInfo ''architecture'') (Str ''unknown'')),
             (''deviceMAC'', js_or (prop_value boardInfo ''deviceMAC'') (Str ''00:00:00:00:00:00'')),
             (''statusOTA'', Bool (truthy (prop_value boardInfo ''statusOTA''))),
             (''signalStrength'', js_or (prop_value boardInfo ''signalStrength'') (Num (Finite 0)))])]"

text \<open>
  A string in fixed decimal notation with \<open>f\<close> fraction digits: an optional minus sign,
  at least one digit, and then nothing more when \<open>f = 0\<close>, or a point and exactly \<open>f\<close>
  digits.
\<close>

definition is_fixed_decimal :: "nat \<Rightarrow> string \<Rightarrow> bool" where
  "is_fixed_decimal f s =
     (let unsigned = (case s of [] \<Rightarrow> [] | c # cs \<Rightarrow> if c = CHR ''-'' then cs else s);
          whole = takeWhile is_digit unsigned;
          rest = dropWhile is_digit unsigned
      in whole \<noteq> [] \<and>
         (if f = 0 then rest = []
          else (case rest of
                  [] \<Rightarrow> False
                | c # fraction \<Rightarrow>
                    c = CHR ''.'' \<and> length fraction = f \<and> list_all is_digit fraction)))"

section \<open>Facts about the string helpers\<close>

lemma is_hex_upper_cases:
  "is_hex_upper c \<longleftrightarrow>
     c = CHR ''0'' \<or> c = CHR ''1'' \<or> c = CHR ''2'' \<or> c = CHR ''3'' \<or> c = CHR ''4'' \<or>
     c = CHR ''5'' \<or> c = CHR ''6'' \<or> c = CHR ''7'' \<or> c = CHR ''8'' \<or> c = CHR ''9'' \<or>
     c = CHR ''A'' \<or> c = CHR ''B'' \<or> c = CHR ''C'' \<or> c = CHR ''D'' \<or> c = CHR ''E'' \<or>
     c = CHR ''F''"
  unfolding is_hex_upper_def by simp

lemma toUpper_char_hex: "is_hex_upper c \<Longrightarrow> toUpper_char c = c"
  unfolding is_hex_upper_cases by (elim disjE) (simp_all add: toUpper_char_def)

lemma hex_not_line_terminator: "is_hex_upper c \<Longrightarrow> \<not> line_terminator c"
  unfolding is_hex_upper_cases by (elim disjE) (simp_all add: line_terminator_def)

lemma toUpper_char_colon: "toUpper_char CHR '':'' = CHR '':''"
  by (simp add: toUpper_char_def)

lemma colon_not_hex: "\<not> is_hex_upper CHR '':''"
  by (simp add: is_hex_upper_def)

lemma replace_non_hex_all_hex: "c \<in> set (replace_non_hex s) \<Longrightarrow> is_hex_upper c"
  by (simp add: replace_non_hex_def)

lemma digits_small: "n < 10 \<Longrightarrow> digits n = [digit_char n]"
  by (simp add: digits.simps)

lemma digits_large: "10 \<le> n \<Longrightarrow> digits n = digits (n div 10) @ [digit_char (n mod 10)]"
  by (subst digits.simps) simp

lemma length_twelve:
  assumes "length xs = 12"
  obtains a0 a1 a2 a3 a4 a5 a6 a7 a8 a9 a10 a11
  where "xs = [a0, a1, a2, a3, a4, a5, a6, a7, a8, a9, a10, a11]"
proof -
  have "length xs = Suc (Suc (Suc (Suc (Suc (Suc (Suc (Suc (Suc (Suc (Suc (Suc 0)))))))))))"
    using assms by simp
  then show thesis
    using that by (auto simp: length_Suc_conv)
qed

text \<open>Matching pairs and joining them with colons loses no hex digit.\<close>

lemma rehex_joined_groups:
  "\<forall>c\<in>set h. is_hex_upper c \<Longrightarrow>
     replace_non_hex (toUpperCase (join '':'' (match_dot12 h))) = h"
proof (induction h rule: match_dot12.induct)
  case 1
  then show ?case by (simp add: toUpperCase_def replace_non_hex_def)
next
  case (2 a)
  then show ?case
    by (simp add: toUpperCase_def replace_non_hex_def toUpper_char_hex hex_not_line_terminator)
next
  case (3 a b cs)
  then show ?case
    by (cases "match_dot12 cs")
       (simp_all add: toUpperCase_def replace_non_hex_def toUpper_char_hex
          hex_not_line_terminator toUpper_char_colon colon_not_hex)
qed

lemma match_dot12_twelve:
  assumes "\<forall>c\<in>set h. is_hex_upper c" and "length h = 12"
  shows "String_match h =
     Some [[h ! 0, h ! 1], [h ! 2, h ! 3], [h ! 4, h ! 5], [h ! 6, h ! 7], [h ! 8, h ! 9],
           [h ! 10, h ! 11]]"
proof -
  from assms(2) obtain a0 a1 a2 a3 a4 a5 a6 a7 a8 a9 a10 a11
    where h: "h = [a0, a1, a2, a3, a4, a5, a6, a7, a8, a9, a10, a11]"
    by (rule length_twelve)
  with assms(1) show ?thesis
    by (simp add: String_match_def hex_not_line_terminator)
qed

lemma then_js_Inr [simp]: "then_js (Inr x) f = f x"
  by (simp add: then_js_def)

lemma then_js_Inl [simp]: "then_js (Inl e) f = Inl e"
  by (simp add: then_js_def)

lemma normalizeMac_Str:
  "normalizeMac B (Str s) =
     (if s = [] then Inr (Str s)
      else
        let hex = replace_non_hex (toUpperCase s) in
        if length hex \<noteq> 12 then Inr (Str s)
        else (case String_match hex of
                None \<Rightarrow> Inl TypeError
              | Some groups \<Rightarrow> Inr (Str (join '':'' groups))))"
  by (simp add: normalizeMac_def)

lemma normalizeMac_twelve:
  assumes "String_js B mac = Inr str"
    and "length (replace_non_hex (toUpperCase str)) = 12" and "truthy mac"
  shows "normalizeMac B mac =
     Inr (Str (join '':'' (match_dot12 (replace_non_hex (toUpperCase str)))))"
proof -
  let ?h = "replace_non_hex (toUpperCase str)"
  have hex: "\<forall>c\<in>set ?h. is_hex_upper c"
    by (simp add: replace_non_hex_all_hex)
  from match_dot12_twelve[OF hex assms(2)] have "String_match ?h \<noteq> None" by simp
  then obtain groups where g: "String_match ?h = Some groups" by blast
  then have "match_dot12 ?h = groups"
    by (auto simp: String_match_def split: list.splits)
  with g assms show ?thesis
    by (simp add: normalizeMac_def)
qed

lemma truthy_Str_of_hex:
  assumes "length (replace_non_hex (toUpperCase s)) = 12"
  shows "truthy (Str s)"
  using assms by (cases s) (simp_all add: replace_non_hex_def toUpperCase_def)

section \<open>Properties of the MAC normalizer\<close>

text \<open>
  Claim C3. For every input string whose uppercase form, stripped of every character
  outside \<^verbatim>\<open>0-9A-F\<close>, has exactly 12 characters, \<^verbatim>\<open>normalizeMac\<close> returns those 12
  hex digits as six groups of two joined by colons.
\<close>

theorem normalizeMac_groups_of_two:
  assumes "length (replace_non_hex (toUpperCase s)) = 12"
  shows "normalizeMac B (Str s) =
     (let h = replace_non_hex (toUpperCase s) in
      Inr (Str [h ! 0, h ! 1, CHR '':'', h ! 2, h ! 3, CHR '':'', h ! 4, h ! 5, CHR '':'',
                h ! 6, h ! 7, CHR '':'', h ! 8, h ! 9, CHR '':'', h ! 10, h ! 11]))"
proof -
  let ?h = "replace_non_hex (toUpperCase s)"
  have hex: "\<forall>c\<in>set ?h. is_hex_upper c"
    by (simp add: replace_non_hex_all_hex)
  have "match_dot12 ?h =
     [[?h ! 0, ?h ! 1], [?h ! 2, ?h ! 3], [?h ! 4, ?h ! 5], [?h ! 6, ?h ! 7], [?h ! 8, ?h ! 9],
      [?h ! 10, ?h ! 11]]"
    using match_dot12_twelve[OF hex assms]
    by (auto simp: String_match_def split: list.splits)
  moreover have "normalizeMac B (Str s) = Inr (Str (join '':'' (match_dot12 ?h)))"
    using normalizeMac_twelve[of B "Str s" s] assms truthy_Str_of_hex[OF assms] by simp
  ultimately show ?thesis
    by (simp add: Let_def)
qed

text \<open>The input \<^verbatim>\<open>aa-bb-cc-11-22-33\<close> becomes \<^verbatim>\<open>AA:BB:CC:11:22:33\<close>.\<close>

theorem normalizeMac_groups_of_two_witness:
  "length (replace_non_hex (toUpperCase ''aa-bb-cc-11-22-33'')) = 12 \<and>
   normalizeMac sample_engine (Str ''aa-bb-cc-11-22-33'') = Inr (Str ''AA:BB:CC:11:22:33'')"
proof -
  have h: "replace_non_hex (toUpperCase ''aa-bb-cc-11-22-33'') = ''AABBCC112233''"
    by (simp add: replace_non_hex_def toUpperCase_def toUpper_char_def is_hex_upper_def)
  then have len: "length (replace_non_hex (toUpperCase ''aa-bb-cc-11-22-33'')) = 12"
    by simp
  from normalizeMac_groups_of_two[OF len, of sample_engine] h len show ?thesis
    by (simp add: Let_def)
qed

text \<open>
  Claim C6. On the inputs of its contract, a string or \<^verbatim>\<open>null\<close>, and on
  \<^verbatim>\<open>undefined\<close>, \<^verbatim>\<open>normalizeMac\<close> returns and never throws: \<^verbatim>\<open>null\<close>,
  \<^verbatim>\<open>undefined\<close> and the empty string come back unchanged, and a string whose stripped
  hex form has a length other than 12 comes back as it was given (not in its stripped
  form). The same holds of every other value that \<^verbatim>\<open>String\<close> can convert, with the
  stripped hex form of its string. The only throw of \<^verbatim>\<open>normalizeMac\<close> is that of
  \<^verbatim>\<open>String(mac)\<close>, on a truthy value outside the contract that cannot be converted.
\<close>

theorem normalizeMac_total:
  "normalizeMac B Null = Inr Null \<and>
   normalizeMac B Undefined = Inr Undefined \<and>
   normalizeMac B (Str []) = Inr (Str []) \<and>
   (\<exists>v. normalizeMac B (Str s) = Inr v) \<and>
   (length (replace_non_hex (toUpperCase s)) \<noteq> 12 \<longrightarrow> normalizeMac B (Str s) = Inr (Str s)) \<and>
   (String_js B mac = Inr str \<longrightarrow>
      (\<exists>v. normalizeMac B mac = Inr v) \<and>
      (length (replace_non_hex (toUpperCase str)) \<noteq> 12 \<longrightarrow> normalizeMac B mac = Inr mac)) \<and>
   (normalizeMac B mac = Inl e \<longleftrightarrow> truthy mac \<and> String_js B mac = Inl e)"
proof -
  have returns: "\<exists>v. normalizeMac B m = Inr v" if "String_js B m = Inr t" for m t
  proof (cases "truthy m \<and> length (replace_non_hex (toUpperCase t)) = 12")
    case True
    then show ?thesis using normalizeMac_twelve[OF that] by simp
  next
    case False
    then show ?thesis using that by (auto simp: normalizeMac_def Let_def)
  qed
  have same: "normalizeMac B m = Inr m"
    if "String_js B m = Inr t" "length (replace_non_hex (toUpperCase t)) \<noteq> 12" for m t
    using that by (simp add: normalizeMac_def Let_def)
  have throws: "normalizeMac B mac = Inl e \<longleftrightarrow> truthy mac \<and> String_js B mac = Inl e"
  proof (cases "String_js B mac")
    case (Inl e')
    then show ?thesis by (auto simp: normalizeMac_def)
  next
    case (Inr t)
    with returns[OF Inr] show ?thesis by auto
  qed
  have str: "String_js B (Str s) = Inr s"
    by simp
  show ?thesis
    using returns[OF str] same[OF str] returns[of mac str] same[of mac str] throws
    by (simp add: normalizeMac_def)
qed

text \<open>
  The six hex digits \<^verbatim>\<open>AABBCC\<close> come back unchanged, and so does the number 5, whose
  string has one hex digit; outside the contract, an object with a property of its own
  named \<^verbatim>\<open>toString\<close> makes \<^verbatim>\<open>String\<close> throw.
\<close>

theorem normalizeMac_total_witness:
  "length (replace_non_hex (toUpperCase ''AABBCC'')) \<noteq> 12 \<and>
   normalizeMac sample_engine (Str ''AABBCC'') = Inr (Str ''AABBCC'') \<and>
   String_js sample_engine (Num (Finite 5)) = Inr ''5'' \<and>
   length (replace_non_hex (toUpperCase ''5'')) \<noteq> 12 \<and>
   normalizeMac sample_engine (Num (Finite 5)) = Inr (Num (Finite 5)) \<and>
   truthy (Obj [(''toString'', Num (Finite 1))]) \<and>
   String_js sample_engine (Obj [(''toString'', Num (Finite 1))]) = Inl TypeError \<and>
   normalizeMac sample_engine (Obj [(''toString'', Num (Finite 1))]) = Inl TypeError"
proof -
  have a: "length (replace_non_hex (toUpperCase ''AABBCC'')) \<noteq> 12"
    by (simp add: replace_non_hex_def toUpperCase_def)
  have b: "String_js sample_engine (Num (Finite 5)) = Inr ''5''"
    by (simp add: Number_toString_def sample_engine_def digits_small digit_char_def)
  have c: "length (replace_non_hex (toUpperCase ''5'')) \<noteq> 12"
    by (simp add: replace_non_hex_def toUpperCase_def)
  have d: "String_js sample_engine (Obj [(''toString'', Num (Finite 1))]) = Inl TypeError"
    by simp
  from normalizeMac_total[of sample_engine "''AABBCC''" "Num (Finite 5)" "''5''" TypeError]
    normalizeMac_total[of sample_engine "''AABBCC''" "Obj [(''toString'', Num (Finite 1))]"
      "''5''" TypeError] a b c d
  show ?thesis
    by simp
qed

text \<open>
  Claim C8. On every string whose uppercase hex-stripped form has exactly 12 characters,
  normalizing twice gives what normalizing once gives.
\<close>

theorem normalizeMac_idempotent:
  assumes "length (replace_non_hex (toUpperCase s)) = 12"
  shows "\<exists>v. normalizeMac B (Str s) = Inr v \<and> normalizeMac B v = Inr v"
proof -
  let ?h = "replace_non_hex (toUpperCase s)"
  let ?out = "join '':'' (match_dot12 ?h)"
  have hex: "\<forall>c\<in>set ?h. is_hex_upper c"
    by (simp add: replace_non_hex_all_hex)
  have first: "normalizeMac B (Str s) = Inr (Str ?out)"
    using normalizeMac_twelve[of B "Str s" s] assms truthy_Str_of_hex[OF assms] by simp
  have again: "replace_non_hex (toUpperCase ?out) = ?h"
    by (rule rehex_joined_groups[OF hex])
  then have "length (replace_non_hex (toUpperCase ?out)) = 12"
    using assms by simp
  then have "normalizeMac B (Str ?out) =
      Inr (Str (join '':'' (match_dot12 (replace_non_hex (toUpperCase ?out)))))"
    using normalizeMac_twelve[of B "Str ?out" ?out] truthy_Str_of_hex[of ?out] by simp
  with again have "normalizeMac B (Str ?out) = Inr (Str ?out)"
    by simp
  with first show ?thesis
    by blast
qed

text \<open>Normalizing \<^verbatim>\<open>aa-bb-cc-11-22-33\<close> once and then again.\<close>

theorem normalizeMac_idempotent_witness:
  "length (replace_non_hex (toUpperCase ''aa-bb-cc-11-22-33'')) = 12 \<and>
   normalizeMac sample_engine (Str ''aa-bb-cc-11-22-33'') = Inr (Str ''AA:BB:CC:11:22:33'') \<and>
   normalizeMac sample_engine (Str ''AA:BB:CC:11:22:33'') = Inr (Str ''AA:BB:CC:11:22:33'')"
proof -
  have len: "length (replace_non_hex (toUpperCase ''aa-bb-cc-11-22-33'')) = 12"
    by (simp add: replace_non_hex_def toUpperCase_def toUpper_char_def is_hex_upper_def)
  have out: "normalizeMac sample_engine (Str ''aa-bb-cc-11-22-33'') = Inr (Str ''AA:BB:CC:11:22:33'')"
    by (simp add: normalizeMac_Str String_match_def line_terminator_def replace_non_hex_def
        toUpperCase_def toUpper_char_def is_hex_upper_def)
  from normalizeMac_idempotent[OF len, of sample_engine] out len show ?thesis
    by auto
qed

section \<open>Facts about the flattening loops\<close>

lemma get_prop_defined:
  "v \<noteq> Undefined \<Longrightarrow> v \<noteq> Null \<Longrightarrow> get_prop v k = Inr (prop_value v k)"
  by (cases v) (simp_all add: prop_value_def)

lemma truthy_not_nullish: "truthy v \<Longrightarrow> v \<noteq> Undefined \<and> v \<noteq> Null"
  by (cases v) simp_all

lemma String_js_error:
  "String_js B v = Inl e \<Longrightarrow> e = TypeError"
  "String_elements B vs = Inl e \<Longrightarrow> e = TypeError"
proof (induction B v and B vs arbitrary: e and e rule: String_js_String_elements.induct)
  case (6 B xs)
  then show ?case
    by (cases "String_elements B xs") simp_all
next
  case (9 B x xs)
  show ?case
  proof (cases "x = Undefined \<or> x = Null")
    case True
    with 9 show ?thesis
      by (cases "String_elements B xs") auto
  next
    case False
    with 9 show ?thesis
      by (cases "String_js B x"; cases "String_elements B xs") auto
  qed
qed (simp_all split: if_splits)

lemma Number_js_error: "Number_js B v = Inl e \<Longrightarrow> e = TypeError"
proof (cases v)
  case (Arr xs)
  assume "Number_js B v = Inl e"
  with Arr show ?thesis
    by (cases "String_js B (Arr xs)") (use String_js_error(1)[of B "Arr xs"] in auto)
next
  case (Obj kvs)
  assume "Number_js B v = Inl e"
  with Obj show ?thesis
    by (simp split: if_splits)
qed simp_all

lemma completes_simps [simp]: "completes (Inr x)" "\<not> completes (Inl e)"
  by (simp_all add: completes_def)

lemma primitive_converts: "primitive v \<Longrightarrow> completes (Number_js B v)"
  by (cases v) simp_all

lemma completes_iff: "completes m \<longleftrightarrow> (\<exists>x. m = Inr x)"
  by (cases m) simp_all

lemma number_value_eq: "Number_js B v = Inr n \<Longrightarrow> number_value B v = n"
  by (simp add: number_value_def)

lemma index_loop_from:
  assumes "board \<noteq> Undefined" "board \<noteq> Null" "feed \<noteq> Undefined" "feed \<noteq> Null"
  shows "index_loop B board feed i result =
     (if list_all (\<lambda>j. completes (Number_js B (prop_value feed (valueKey j))))
           (filter (emits board feed) [i..<9])
      then Inr (result @ map (reading B board feed) (filter (emits board feed) [i..<9]))
      else Inl TypeError)"
  using assms
proof (induction B board feed i result rule: index_loop.induct)
  case (1 B board feed i result)
  let ?ok = "\<lambda>k. list_all (\<lambda>j. completes (Number_js B (prop_value feed (valueKey j))))
           (filter (emits board feed) [k..<9])"
  show ?case
  proof (cases "i \<le> 8")
    case False
    then show ?thesis
      by (subst index_loop.simps) simp
  next
    case True
    then have upt: "[i..<9] = i # [i + 1..<9]"
      by (simp add: upt_conv_Cons)
    have b: "get_prop board (infoKey i) = Inr (prop_value board (infoKey i))"
      using "1.prems" by (simp add: get_prop_defined)
    have f: "get_prop feed (valueKey i) = Inr (prop_value feed (valueKey i))"
      using "1.prems" by (simp add: get_prop_defined)
    show ?thesis
    proof (cases "emits board feed i")
      case yes: True
      then have both: "prop_value board (infoKey i) \<noteq> Undefined"
        "prop_value feed (valueKey i) \<noteq> Undefined"
        by (simp_all add: emits_def)
      show ?thesis
      proof (cases "Number_js B (prop_value feed (valueKey i))")
        case (Inl e)
        then have "index_loop B board feed i result = Inl e"
          using True b f both by (subst index_loop.simps) simp
        moreover have "e = TypeError"
          using Inl by (rule Number_js_error)
        ultimately show ?thesis
          using yes upt Inl by simp
      next
        case (Inr n)
        have r: "Obj [(''info'', prop_value board (infoKey i)), (''value'', Num n)] =
             reading B board feed i"
          using Inr by (simp add: reading_def number_value_eq)
        have "index_loop B board feed i result =
            index_loop B board feed (i + 1) (result @ [reading B board feed i])"
          using True b f both Inr by (subst index_loop.simps) (simp add: r)
        also have "\<dots> = (if ?ok (i + 1)
            then Inr ((result @ [reading B board feed i]) @
              map (reading B board feed) (filter (emits board feed) [i + 1..<9]))
            else Inl TypeError)"
          using "1.IH"(1)[OF True both "1.prems", of n] by (simp only: r)
        finally show ?thesis
          using yes upt Inr by simp
      qed
    next
      case no: False
      have "index_loop B board feed i result = index_loop B board feed (i + 1) result"
        using True b f no by (subst index_loop.simps) (auto simp: emits_def)
      also have "\<dots> = (if ?ok (i + 1)
          then Inr (result @
            map (reading B board feed) (filter (emits board feed) [i + 1..<9]))
          else Inl TypeError)"
      proof (cases "prop_value board (infoKey i) = Undefined")
        case undef: True
        show ?thesis
          by (rule "1.IH"(3)[OF True _ "1.prems"]) (simp add: undef)
      next
        case False
        with no have "\<not> prop_value feed (valueKey i) \<noteq> Undefined"
          by (simp add: emits_def)
        from "1.IH"(2)[OF True False this "1.prems"] show ?thesis .
      qed
      finally show ?thesis
        using no upt by simp
    qed
  qed
qed

lemma upt_one_nine: "[Suc 0..<9] = [1, 2, 3, 4, 5, 6, 7, 8]"
  by (simp add: upt_rec)

lemma index_loop_feed_readings:
  assumes "board \<noteq> Undefined" "board \<noteq> Null" "feed \<noteq> Undefined" "feed \<noteq> Null"
  shows "index_loop B board feed 1 result =
     (if feed_converts B board feed then Inr (result @ feed_readings B board feed)
      else Inl TypeError)"
  using index_loop_from[OF assms, of B 1 result]
  by (simp add: feed_readings_def feed_converts_def upt_one_nine)


lemma key_simps:
  "infoKey 1 = ''info1''" "infoKey 2 = ''info2''" "infoKey 3 = ''info3''" "infoKey 4 = ''info4''"
  "infoKey 5 = ''info5''" "infoKey 6 = ''info6''" "infoKey 7 = ''info7''" "infoKey 8 = ''info8''"
  "valueKey 1 = ''value1''" "valueKey 2 = ''value2''" "valueKey 3 = ''value3''"
  "valueKey 4 = ''value4''" "valueKey 5 = ''value5''" "valueKey 6 = ''value6''"
  "valueKey 7 = ''value7''" "valueKey 8 = ''value8''"
  "infoKey (Suc 0) = ''info1''" "valueKey (Suc 0) = ''value1''"
  by (simp_all add: infoKey_def valueKey_def digits_small digit_char_def)

section \<open>Facts about digits and \<open>toFixed\<close>\<close>

lemma below_ten_cases:
  assumes "d < (10::nat)"
  shows "d = 0 \<or> d = 1 \<or> d = 2 \<or> d = 3 \<or> d = 4 \<or> d = 5 \<or> d = 6 \<or> d = 7 \<or> d = 8 \<or> d = 9"
  using assms by arith

lemma digit_char_is_digit: "d < 10 \<Longrightarrow> is_digit (digit_char d)"
  by (drule below_ten_cases) (elim disjE; simp add: digit_char_def is_digit_def)

lemma digit_value_digit_char: "d < 10 \<Longrightarrow> digit_value (digit_char d) = d"
  by (drule below_ten_cases) (elim disjE; simp add: digit_char_def digit_value_def)

lemma digits_not_empty: "digits n \<noteq> []"
  by (subst digits.simps) simp

lemma digits_all_digit: "list_all is_digit (digits n)"
proof (induction n rule: digits.induct)
  case (1 n)
  show ?case
  proof (cases "n < 10")
    case True
    then show ?thesis by (simp add: digits_small digit_char_is_digit)
  next
    case False
    then show ?thesis
      using 1 by (simp add: digits_large digit_char_is_digit)
  qed
qed

lemma digits_value_snoc: "digits_value (s @ [c]) = 10 * digits_value s + digit_value c"
  by (simp add: digits_value_def)

lemma digits_value_digits: "digits_value (digits n) = n"
proof (induction n rule: digits.induct)
  case (1 n)
  show ?case
  proof (cases "n < 10")
    case True
    then show ?thesis
      by (simp add: digits_small digits_value_def digit_value_digit_char)
  next
    case False
    then have "digits_value (digits n) = 10 * (n div 10) + n mod 10"
      using 1 by (simp add: digits_large digits_value_snoc digit_value_digit_char)
    then show ?thesis by simp
  qed
qed

lemma digits_value_zeros: "digits_value (replicate k CHR ''0'' @ m) = digits_value m"
proof -
  have "foldl (\<lambda>n c. 10 * n + digit_value c) 0 (replicate k CHR ''0'') = 0"
    by (induction k) (simp_all add: digit_value_def)
  then show ?thesis
    by (simp add: digits_value_def)
qed

lemma dot_not_digit: "\<not> is_digit CHR ''.''"
  by (simp add: is_digit_def)

lemma minus_not_digit: "\<not> is_digit CHR ''-''"
  by (simp add: is_digit_def)

lemma zero_is_digit: "is_digit CHR ''0''"
  by (simp add: is_digit_def)

text \<open>Where \<open>insert_point\<close> puts the point.\<close>

lemma insert_point_split:
  assumes "list_all is_digit m" and "0 < f"
  obtains a b where "insert_point m f = a @ ''.'' @ b" and "a \<noteq> []" and "length b = f"
    and "list_all is_digit a" and "list_all is_digit b"
    and "digits_value (a @ b) = digits_value m"
proof -
  define m' where "m' = (if length m \<le> f then replicate (f + 1 - length m) CHR ''0'' @ m else m)"
  have len: "f < length m'"
    by (auto simp: m'_def)
  have dig: "list_all is_digit m'"
    using assms(1) by (simp add: m'_def zero_is_digit list_all_iff)
  have val: "digits_value m' = digits_value m"
    by (simp add: m'_def digits_value_zeros)
  let ?a = "take (length m' - f) m'" and ?b = "drop (length m' - f) m'"
  have "insert_point m f = ?a @ ''.'' @ ?b"
    by (simp add: insert_point_def m'_def Let_def)
  moreover have "?a \<noteq> []" using len by auto
  moreover have "length ?b = f" using len by simp
  moreover have "list_all is_digit ?a" "list_all is_digit ?b"
    using dig by (auto simp: list_all_iff dest: in_set_takeD in_set_dropD)
  moreover have "digits_value (?a @ ?b) = digits_value m"
    using val by simp
  ultimately show thesis
    by (rule that)
qed

lemma takeWhile_digits: "list_all is_digit a \<Longrightarrow> takeWhile is_digit (a @ CHR ''.'' # b) = a"
  by (induction a) (simp_all add: dot_not_digit)

lemma dropWhile_digits:
  "list_all is_digit a \<Longrightarrow> dropWhile is_digit (a @ CHR ''.'' # b) = CHR ''.'' # b"
  by (induction a) (simp_all add: dot_not_digit)

lemma takeWhile_all: "list_all is_digit a \<Longrightarrow> takeWhile is_digit a = a"
  by (induction a) simp_all

lemma dropWhile_all: "list_all is_digit a \<Longrightarrow> dropWhile is_digit a = []"
  by (induction a) simp_all

lemma filter_digits_all: "list_all is_digit a \<Longrightarrow> filter is_digit a = a"
  by (induction a) simp_all

lemma fixed_digits_shape:
  obtains a where "a \<noteq> []" "list_all is_digit a"
    and "takeWhile is_digit (fixed_digits n f) = a"
    and "f = 0 \<longrightarrow> dropWhile is_digit (fixed_digits n f) = []"
    and "f \<noteq> 0 \<longrightarrow> (\<exists>b. dropWhile is_digit (fixed_digits n f) = CHR ''.'' # b \<and>
            length b = f \<and> list_all is_digit b)"
    and "digits_value (filter is_digit (fixed_digits n f)) = n"
    and "\<exists>c cs. fixed_digits n f = c # cs \<and> is_digit c"
proof (cases "f = 0")
  case True
  have "\<exists>c cs. digits n = c # cs \<and> is_digit c"
    using digits_not_empty[of n] digits_all_digit[of n] by (cases "digits n") simp_all
  with True show ?thesis
    using digits_not_empty[of n] digits_all_digit[of n]
    by (intro that[of "digits n"])
       (simp_all add: fixed_digits_def Let_def takeWhile_all dropWhile_all filter_digits_all
          digits_value_digits)
next
  case False
  then have "0 < f" by simp
  from insert_point_split[OF digits_all_digit this, of n]
  obtain a b where ab: "insert_point (digits n) f = a @ ''.'' @ b" "a \<noteq> []" "length b = f"
    "list_all is_digit a" "list_all is_digit b" "digits_value (a @ b) = digits_value (digits n)"
    by blast
  have "\<exists>c cs. a @ ''.'' @ b = c # cs \<and> is_digit c"
    using ab(2,4) by (cases a) simp_all
  with False ab show ?thesis
    by (intro that[of a])
       (simp_all add: fixed_digits_def Let_def takeWhile_digits dropWhile_digits filter_digits_all
          dot_not_digit digits_value_digits)
qed

lemma fixed_notation_small:
  assumes "\<bar>r\<bar> < 10 ^ 21"
  shows "fixed_notation B r f =
     (if r < 0 then ''-'' else []) @ fixed_digits (nat \<lfloor>\<bar>r\<bar> * 10 ^ f + 1 / 2\<rfloor>) f"
  using assms by (simp add: fixed_notation_def Let_def)

lemma fixed_notation_format:
  assumes "\<bar>r\<bar> < 10 ^ 21"
  shows "is_fixed_decimal f (fixed_notation B r f)"
    and "(\<exists>t. fixed_notation B r f = CHR ''-'' # t) \<longleftrightarrow> r < 0"
    and "digits_value (filter is_digit (fixed_notation B r f)) = nat \<lfloor>\<bar>r\<bar> * 10 ^ f + 1 / 2\<rfloor>"
proof -
  let ?n = "nat \<lfloor>\<bar>r\<bar> * 10 ^ f + 1 / 2\<rfloor>"
  obtain a where a: "a \<noteq> []" "list_all is_digit a"
    "takeWhile is_digit (fixed_digits ?n f) = a"
    "f = 0 \<longrightarrow> dropWhile is_digit (fixed_digits ?n f) = []"
    "f \<noteq> 0 \<longrightarrow> (\<exists>b. dropWhile is_digit (fixed_digits ?n f) = CHR ''.'' # b \<and>
            length b = f \<and> list_all is_digit b)"
    "digits_value (filter is_digit (fixed_digits ?n f)) = ?n"
    "\<exists>c cs. fixed_digits ?n f = c # cs \<and> is_digit c"
    by (rule fixed_digits_shape)
  from a(7) obtain c cs where c: "fixed_digits ?n f = c # cs" "is_digit c"
    by blast
  then have cm: "c \<noteq> CHR ''-''"
    using minus_not_digit by auto
  have unsigned: "is_fixed_decimal f (fixed_digits ?n f)"
    using a(1,3,4,5) c cm by (auto simp: is_fixed_decimal_def Let_def)
  have signed: "is_fixed_decimal f (CHR ''-'' # fixed_digits ?n f)"
    using a(1,3,4,5) by (auto simp: is_fixed_decimal_def Let_def)
  have neg: "fixed_notation B r f = CHR ''-'' # fixed_digits ?n f" if "r < 0"
    using that fixed_notation_small[OF assms, of B f]
    by (simp only: if_True append_Cons append_Nil)
  have pos: "fixed_notation B r f = fixed_digits ?n f" if "\<not> r < 0"
    using that fixed_notation_small[OF assms, of B f]
    by (simp only: if_False append_Nil)
  show "is_fixed_decimal f (fixed_notation B r f)"
  proof (cases "r < 0")
    case True
    show ?thesis using signed by (simp only: neg[OF True])
  next
    case False
    show ?thesis using unsigned by (simp only: pos[OF False])
  qed
  show "(\<exists>t. fixed_notation B r f = CHR ''-'' # t) \<longleftrightarrow> r < 0"
  proof (cases "r < 0")
    case True
    then show ?thesis using neg by blast
  next
    case False
    then show ?thesis using pos c cm by auto
  qed
  show "digits_value (filter is_digit (fixed_notation B r f)) = ?n"
  proof (cases "r < 0")
    case True
    have "filter is_digit (fixed_notation B r f) = filter is_digit (fixed_digits ?n f)"
      by (simp only: neg[OF True] filter.simps minus_not_digit if_False)
    with a(6) show ?thesis by (simp only:)
  next
    case False
    show ?thesis using a(6) by (simp only: pos[OF False])
  qed
qed

lemma toFixed_in_range:
  assumes "Number_js B precision = Inr p" "ToIntegerOrInfinity p = Some f" "0 \<le> f" "f \<le> 100"
  shows "toFixed B x precision =
     Inr (case x of Finite r \<Rightarrow> fixed_notation B r (nat f) | _ \<Rightarrow> Number_toString B x)"
  using assms by (cases x) (simp_all add: toFixed_def)

section \<open>Facts about the control flow helpers\<close>

lemma get_prop_error: "get_prop v k = Inl e \<Longrightarrow> e = TypeError"
  by (cases v) simp_all

lemma iterate_error: "iterate v = Inl e \<Longrightarrow> e = TypeError"
  by (cases v) simp_all

lemma then_js_eq_Inr:
  "then_js m f = Inr y \<longleftrightarrow> (\<exists>x. m = Inr x \<and> f x = Inr y)"
  by (cases m) simp_all

lemma then_js_eq_Inl:
  "then_js m f = Inl e \<longleftrightarrow> m = Inl e \<or> (\<exists>x. m = Inr x \<and> f x = Inl e)"
  by (cases m) simp_all

lemma sensor_entry_defined:
  assumes "s \<noteq> Undefined" "s \<noteq> Null"
  shows "sensor_entry B precision s =
     then_js (Number_js B (prop_value s ''value'')) (\<lambda>number.
     then_js (toFixed B number precision)
       (\<lambda>d. Inr (Obj [(''info'', prop_value s ''info''), (''data'', Str d)])))"
  using assms by (simp add: sensor_entry_def get_prop_defined)

section \<open>Where the flattening can throw\<close>

lemma index_loop_error: "index_loop B board feed i result = Inl e \<Longrightarrow> e = TypeError"
proof (induction B board feed i result rule: index_loop.induct)
  case (1 B board feed i result)
  show ?case
  proof (cases "i \<le> 8")
    case False
    with "1.prems" show ?thesis
      by (subst (asm) index_loop.simps) simp
  next
    case True
    show ?thesis
    proof (cases "get_prop board (infoKey i)")
      case (Inl e')
      with True "1.prems" have "e' = e"
        by (subst (asm) index_loop.simps) simp
      with Inl show ?thesis
        by (simp add: get_prop_error)
    next
      case label: (Inr label)
      show ?thesis
      proof (cases "label = Undefined")
        case True
        with \<open>i \<le> 8\<close> label "1.prems" have "index_loop B board feed (i + 1) result = Inl e"
          by (subst (asm) index_loop.simps) simp
        with "1.IH"(3)[of label] True \<open>i \<le> 8\<close> show ?thesis
          by simp
      next
        case False
        show ?thesis
        proof (cases "get_prop feed (valueKey i)")
          case (Inl e')
          with False \<open>i \<le> 8\<close> label "1.prems" have "e' = e"
            by (subst (asm) index_loop.simps) simp
          with Inl show ?thesis
            by (simp add: get_prop_error)
        next
          case v: (Inr v)
          show ?thesis
          proof (cases "v = Undefined")
            case True
            with False \<open>i \<le> 8\<close> label v "1.prems"
            have "index_loop B board feed (i + 1) result = Inl e"
              by (subst (asm) index_loop.simps) simp
            with "1.IH"(2)[of label v] True False \<open>i \<le> 8\<close> show ?thesis
              by simp
          next
            case defined: False
            show ?thesis
            proof (cases "Number_js B v")
              case (Inl e')
              with defined False \<open>i \<le> 8\<close> label v "1.prems" have "e' = e"
                by (subst (asm) index_loop.simps) simp
              with Inl show ?thesis
                by (simp add: Number_js_error)
            next
              case n: (Inr n)
              with defined False \<open>i \<le> 8\<close> label v "1.prems"
              have "index_loop B board feed (i + 1)
                  (result @ [Obj [(''info'', label), (''value'', Num n)]]) = Inl e"
                by (subst (asm) index_loop.simps) simp
              with "1.IH"(1)[of label v n] defined False \<open>i \<le> 8\<close> show ?thesis
                by simp
            qed
          qed
        qed
      qed
    qed
  qed
qed

lemma feed_loop_error: "feed_loop B board feeds result = Inl e \<Longrightarrow> e = TypeError"
  by (induction feeds arbitrary: result) (auto simp: then_js_eq_Inl dest: index_loop_error)

lemma flatten_feeds_error: "flatten_feeds B json = Inl e \<Longrightarrow> e = TypeError"
  by (auto simp: flatten_feeds_def Let_def then_js_eq_Inl
      dest: get_prop_error iterate_error feed_loop_error)

lemma failure_result_object:
  assumes "error_message B e = Inr message"
  shows "failure_result B e =
     Inr (Obj [(''ok'', Bool False), (''status'', Num (Finite 0)), (''error'', hint_of message)])"
  using assms by (simp add: failure_result_def)

section \<open>Facts about \<open>sendData\<close>\<close>

lemma get_prop_truthy_Obj:
  assumes "get_prop v k = Inr x" "truthy x"
  obtains kvs where "v = Obj kvs" "map_of kvs k = Some x"
  using assms by (cases v) (auto simp: own_prop_def split: option.splits)

lemma map_of_set_own: "map_of (set_own kvs k v) = (map_of kvs)(k \<mapsto> v)"
  by (induction kvs k v rule: set_own.induct) auto

lemma keys_set_own: "map_of kvs k = Some x \<Longrightarrow> map fst (set_own kvs k v) = map fst kvs"
  by (induction kvs k v rule: set_own.induct) (auto split: if_splits)

lemma normalizeMac_truthy:
  assumes "truthy mac" "normalizeMac B mac = Inr v"
  shows "truthy v"
proof (cases "String_js B mac")
  case (Inl e)
  with assms show ?thesis
    by (simp add: normalizeMac_def)
next
  case (Inr str)
  show ?thesis
  proof (cases "length (replace_non_hex (toUpperCase str)) = 12")
    case True
    let ?h = "replace_non_hex (toUpperCase str)"
    have hex: "\<forall>c\<in>set ?h. is_hex_upper c"
      by (simp add: replace_non_hex_all_hex)
    from match_dot12_twelve[OF hex True] have "match_dot12 ?h =
       [[?h ! 0, ?h ! 1], [?h ! 2, ?h ! 3], [?h ! 4, ?h ! 5], [?h ! 6, ?h ! 7], [?h ! 8, ?h ! 9],
        [?h ! 10, ?h ! 11]]"
      by (auto simp: String_match_def split: list.splits)
    with normalizeMac_twelve[OF Inr True assms(1)] assms(2) show ?thesis
      by auto
  next
    case False
    with assms Inr show ?thesis
      by (auto simp: normalizeMac_def Let_def)
  qed
qed

lemma normalizeMac_returns:
  assumes "String_js B mac = Inr str"
  shows "\<exists>v. normalizeMac B mac = Inr v"
proof (cases "truthy mac \<and> length (replace_non_hex (toUpperCase str)) = 12")
  case True
  then show ?thesis using normalizeMac_twelve[OF assms] by simp
next
  case False
  then show ?thesis using assms by (auto simp: normalizeMac_def Let_def)
qed

lemma normalizeMac_throws:
  "normalizeMac B mac = Inl e \<longleftrightarrow> truthy mac \<and> String_js B mac = Inl e"
proof (cases "String_js B mac")
  case (Inl e')
  then show ?thesis by (auto simp: normalizeMac_def)
next
  case (Inr str)
  with normalizeMac_returns[OF Inr] show ?thesis by auto
qed

lemma normalizeMac_falsy: "\<not> truthy mac \<Longrightarrow> normalizeMac B mac = Inr mac"
  by (simp add: normalizeMac_def)

lemma normalize_deviceMAC_truthy:
  assumes "get_prop boardInfo ''deviceMAC'' = Inr mac" "truthy mac"
    and "normalizeMac B mac = Inr normalized"
  shows "normalize_deviceMAC B boardInfo = Inr (set_prop boardInfo ''deviceMAC'' normalized)"
proof -
  from assms(1,2) obtain kvs where "boardInfo = Obj kvs"
    by (rule get_prop_truthy_Obj)
  with assms show ?thesis
    by (simp add: normalize_deviceMAC_def)
qed

lemma boardInfo_after_sendData:
  assumes "normalize_deviceMAC B (default_param boardInfo (Obj [])) = Inr boardInfo'"
  shows "boardInfo_after (sendData B sensors boardInfo precision net) = boardInfo'"
  using assms by (simp add: sendData_def Let_def split: sum.splits)

lemma request_body_sendData:
  assumes "normalize_deviceMAC B (default_param boardInfo (Obj [])) = Inr boardInfo'"
    and "request_body (sendData B sensors boardInfo precision net) = Some payload"
  shows "build_payload B sensors boardInfo' (default_param precision (Num (Finite 4))) =
    Inr payload"
  using assms by (simp add: sendData_def Let_def split: sum.splits)

lemma get_prop_nullish: "v = Undefined \<or> v = Null \<Longrightarrow> get_prop v k = Inl TypeError"
  by auto

lemma build_payload_iff:
  "build_payload B sensors boardInfo precision = Inr payload \<longleftrightarrow>
     (\<exists>sensorData. Array_map sensors (sensor_entry B precision) = Inr sensorData \<and>
        boardInfo \<noteq> Undefined \<and> boardInfo \<noteq> Null \<and>
        payload = payload_of sensorData boardInfo)"
proof (cases "boardInfo = Undefined \<or> boardInfo = Null")
  case True
  then have "get_prop boardInfo ''firmwareVersion'' = Inl TypeError"
    by (rule get_prop_nullish)
  with True show ?thesis
    by (cases "Array_map sensors (sensor_entry B precision)") (auto simp: build_payload_def)
next
  case False
  then have "\<And>k. get_prop boardInfo k = Inr (prop_value boardInfo k)"
    by (simp add: get_prop_defined)
  with False show ?thesis
    by (cases "Array_map sensors (sensor_entry B precision)")
       (auto simp: build_payload_def payload_of_def)
qed

lemma payload_deviceMAC:
  "then_js (get_prop (payload_of sensorData boardInfo) ''boardInfo'')
     (\<lambda>bi. get_prop bi ''deviceMAC'') =
   Inr (js_or (prop_value boardInfo ''deviceMAC'') (Str ''00:00:00:00:00:00''))"
  by (simp add: payload_of_def own_prop_def)

lemma prop_value_set_prop_same:
  "prop_value (Obj (set_own kvs k v)) k = v"
  by (simp add: prop_value_def own_prop_def map_of_set_own)

lemma get_prop_set_prop_other:
  "k' \<noteq> k \<Longrightarrow> get_prop (set_prop w k v) k' = get_prop w k'"
  by (cases w) (simp_all add: own_prop_def map_of_set_own)

lemma prop_value_set_own_other:
  "k' \<noteq> k \<Longrightarrow> prop_value (Obj (set_own kvs k v)) k' = prop_value (Obj kvs) k'"
  by (simp add: prop_value_def own_prop_def map_of_set_own)

lemma prop_value_falsy: "\<not> truthy boardInfo \<Longrightarrow> prop_value boardInfo k = Undefined"
  by (cases boardInfo) (simp_all add: prop_value_def)

text \<open>
  The normalizing statement throws only when \<^verbatim>\<open>normalizeMac\<close> does, and touches
  nothing but a truthy MAC.
\<close>

lemma normalize_deviceMAC_falsy:
  assumes "\<not> truthy (prop_value boardInfo ''deviceMAC'')"
  shows "normalize_deviceMAC B boardInfo = Inr boardInfo"
proof (cases "truthy boardInfo")
  case True
  then have "get_prop boardInfo ''deviceMAC'' = Inr (prop_value boardInfo ''deviceMAC'')"
    using truthy_not_nullish[of boardInfo] by (simp add: get_prop_defined)
  with assms True show ?thesis
    by (simp add: normalize_deviceMAC_def)
next
  case False
  then show ?thesis by (simp add: normalize_deviceMAC_def)
qed

lemma normalize_deviceMAC_step:
  assumes "truthy (prop_value boardInfo ''deviceMAC'')"
  obtains kvs where "boardInfo = Obj kvs"
    and "map_of kvs ''deviceMAC'' = Some (prop_value boardInfo ''deviceMAC'')"
    and "normalize_deviceMAC B boardInfo =
      then_js (normalizeMac B (prop_value boardInfo ''deviceMAC''))
        (\<lambda>normalized. Inr (Obj (set_own kvs ''deviceMAC'' normalized)))"
proof -
  have t: "truthy boardInfo"
  proof (rule ccontr)
    assume "\<not> truthy boardInfo"
    then have "prop_value boardInfo ''deviceMAC'' = Undefined"
      by (rule prop_value_falsy)
    with assms show False
      by simp
  qed
  then have g: "get_prop boardInfo ''deviceMAC'' = Inr (prop_value boardInfo ''deviceMAC'')"
    using truthy_not_nullish[of boardInfo] by (simp add: get_prop_defined)
  from g assms obtain kvs where obj: "boardInfo = Obj kvs"
    and m: "map_of kvs ''deviceMAC'' = Some (prop_value boardInfo ''deviceMAC'')"
    by (rule get_prop_truthy_Obj)
  have "normalize_deviceMAC B boardInfo =
      then_js (normalizeMac B (prop_value boardInfo ''deviceMAC''))
        (\<lambda>normalized. Inr (Obj (set_own kvs ''deviceMAC'' normalized)))"
    unfolding normalize_deviceMAC_def using t g assms obj by simp
  with obj m show thesis
    by (rule that)
qed

lemma normalize_deviceMAC_throws:
  "normalize_deviceMAC B boardInfo = Inl e \<longleftrightarrow>
     truthy (prop_value boardInfo ''deviceMAC'') \<and>
     normalizeMac B (prop_value boardInfo ''deviceMAC'') = Inl e"
proof (cases "truthy (prop_value boardInfo ''deviceMAC'')")
  case False
  then show ?thesis
    by (simp add: normalize_deviceMAC_falsy)
next
  case True
  then obtain kvs where "normalize_deviceMAC B boardInfo =
      then_js (normalizeMac B (prop_value boardInfo ''deviceMAC''))
        (\<lambda>normalized. Inr (Obj (set_own kvs ''deviceMAC'' normalized)))"
    by (rule normalize_deviceMAC_step)
  with True show ?thesis
    by (cases "normalizeMac B (prop_value boardInfo ''deviceMAC'')") simp_all
qed

lemma normalize_deviceMAC_result:
  assumes "normalize_deviceMAC B boardInfo = Inr boardInfo'"
  shows "boardInfo' = Undefined \<or> boardInfo' = Null \<longleftrightarrow> boardInfo = Undefined \<or> boardInfo = Null"
    and "\<forall>k. k \<noteq> ''deviceMAC'' \<longrightarrow> prop_value boardInfo' k = prop_value boardInfo k"
    and "\<not> truthy (prop_value boardInfo ''deviceMAC'') \<longrightarrow> boardInfo' = boardInfo"
    and "truthy (prop_value boardInfo ''deviceMAC'') \<longrightarrow>
           normalizeMac B (prop_value boardInfo ''deviceMAC'') =
             Inr (prop_value boardInfo' ''deviceMAC'')"
proof -
  have "(boardInfo' = Undefined \<or> boardInfo' = Null \<longleftrightarrow> boardInfo = Undefined \<or> boardInfo = Null) \<and>
    (\<forall>k. k \<noteq> ''deviceMAC'' \<longrightarrow> prop_value boardInfo' k = prop_value boardInfo k) \<and>
    (\<not> truthy (prop_value boardInfo ''deviceMAC'') \<longrightarrow> boardInfo' = boardInfo) \<and>
    (truthy (prop_value boardInfo ''deviceMAC'') \<longrightarrow>
           normalizeMac B (prop_value boardInfo ''deviceMAC'') =
             Inr (prop_value boardInfo' ''deviceMAC''))"
  proof (cases "truthy (prop_value boardInfo ''deviceMAC'')")
    case False
    with assms have "boardInfo' = boardInfo"
      by (simp add: normalize_deviceMAC_falsy)
    with False show ?thesis
      by simp
  next
    case True
    then obtain kvs where obj: "boardInfo = Obj kvs"
      and step: "normalize_deviceMAC B boardInfo =
        then_js (normalizeMac B (prop_value boardInfo ''deviceMAC''))
          (\<lambda>normalized. Inr (Obj (set_own kvs ''deviceMAC'' normalized)))"
      by (rule normalize_deviceMAC_step)
    from step assms have "then_js (normalizeMac B (prop_value boardInfo ''deviceMAC''))
          (\<lambda>normalized. Inr (Obj (set_own kvs ''deviceMAC'' normalized))) = Inr boardInfo'"
      by simp
    then obtain normalized
      where n: "normalizeMac B (prop_value boardInfo ''deviceMAC'') = Inr normalized"
        and b: "boardInfo' = Obj (set_own kvs ''deviceMAC'' normalized)"
      by (auto simp: then_js_eq_Inr)
    from True n b obj show ?thesis
      by (simp add: prop_value_set_prop_same prop_value_set_own_other)
  qed
  then show
    "boardInfo' = Undefined \<or> boardInfo' = Null \<longleftrightarrow> boardInfo = Undefined \<or> boardInfo = Null"
    "\<forall>k. k \<noteq> ''deviceMAC'' \<longrightarrow> prop_value boardInfo' k = prop_value boardInfo k"
    "\<not> truthy (prop_value boardInfo ''deviceMAC'') \<longrightarrow> boardInfo' = boardInfo"
    "truthy (prop_value boardInfo ''deviceMAC'') \<longrightarrow>
           normalizeMac B (prop_value boardInfo ''deviceMAC'') =
             Inr (prop_value boardInfo' ''deviceMAC'')"
    by blast+
qed

lemma normalize_deviceMAC_completes:
  assumes "String_js B (prop_value boardInfo ''deviceMAC'') = Inr macString"
  shows "\<exists>boardInfo'. normalize_deviceMAC B boardInfo = Inr boardInfo'"
proof (cases "normalize_deviceMAC B boardInfo")
  case (Inl e)
  then have "normalizeMac B (prop_value boardInfo ''deviceMAC'') = Inl e"
    by (simp add: normalize_deviceMAC_throws)
  with assms show ?thesis
    by (simp add: normalizeMac_throws)
next
  case (Inr boardInfo')
  then show ?thesis by blast
qed

lemma sendData_cases:
  obtains (mac_throws) e where
      "normalize_deviceMAC B (default_param boardInfo (Obj [])) = Inl e"
      "sendData B sensors boardInfo precision net =
         \<lparr>boardInfo_after = default_param boardInfo (Obj []), request_body = None,
          outcome = Inl e\<rparr>"
  | (payload_throws) boardInfo' e where
      "normalize_deviceMAC B (default_param boardInfo (Obj [])) = Inr boardInfo'"
      "build_payload B sensors boardInfo' (default_param precision (Num (Finite 4))) = Inl e"
      "sendData B sensors boardInfo precision net =
         \<lparr>boardInfo_after = boardInfo', request_body = None, outcome = Inl e\<rparr>"
  | (built) boardInfo' payload where
      "normalize_deviceMAC B (default_param boardInfo (Obj [])) = Inr boardInfo'"
      "build_payload B sensors boardInfo' (default_param precision (Num (Finite 4))) = Inr payload"
      "sendData B sensors boardInfo precision net =
         \<lparr>boardInfo_after = boardInfo', request_body = Some payload,
          outcome = send_request B net\<rparr>"
proof (cases "normalize_deviceMAC B (default_param boardInfo (Obj []))")
  case (Inl e)
  then show ?thesis
    by (intro mac_throws[of e]) (simp_all add: sendData_def Let_def)
next
  case n: (Inr boardInfo')
  show ?thesis
  proof (cases "build_payload B sensors boardInfo' (default_param precision (Num (Finite 4)))")
    case (Inl e)
    with n show ?thesis
      by (intro payload_throws[of boardInfo' e]) (simp_all add: sendData_def Let_def)
  next
    case (Inr payload)
    with n show ?thesis
      by (intro built[of boardInfo' payload]) (simp_all add: sendData_def Let_def)
  qed
qed

text \<open>
  With sensors that can be read, values that can be converted and a precision in range,
  every entry is built.
\<close>

lemma map_sensor_entries:
  assumes "\<forall>s\<in>set ss. s \<noteq> Undefined \<and> s \<noteq> Null \<and> completes (Number_js B (prop_value s ''value''))"
    and "Number_js B precision = Inr p"
    and "ToIntegerOrInfinity p = Some f" "0 \<le> f" "f \<le> 100"
  shows "map_js (sensor_entry B precision) ss =
     Inr (map (\<lambda>s. Obj [(''info'', prop_value s ''info''),
                         (''data'', Str (case number_value B (prop_value s ''value'') of
                                           Finite r \<Rightarrow> fixed_notation B r (nat f)
                                         | x \<Rightarrow> Number_toString B x))]) ss)"
  using assms(1)
proof (induction ss)
  case Nil
  then show ?case by simp
next
  case (Cons s ss)
  then obtain x where x: "Number_js B (prop_value s ''value'') = Inr x"
    by (auto simp: completes_iff)
  with Cons show ?case
    by (simp add: sensor_entry_defined toFixed_in_range[OF assms(2-5)] number_value_eq
        split: jsnum.splits)
qed

lemma sendData_builds:
  assumes "\<forall>s\<in>set ss. s \<noteq> Undefined \<and> s \<noteq> Null \<and> completes (Number_js B (prop_value s ''value''))"
    and "boardInfo \<noteq> Null"
    and "String_js B (prop_value boardInfo ''deviceMAC'') = Inr macString"
    and "Number_js B (default_param precision (Num (Finite 4))) = Inr p"
    and "ToIntegerOrInfinity p = Some f"
    and "0 \<le> f" and "f \<le> 100"
  obtains boardInfo' where
    "normalize_deviceMAC B (default_param boardInfo (Obj [])) = Inr boardInfo'"
    "request_body (sendData B (Arr ss) boardInfo precision net) =
       Some (payload_of
         (Arr (map (\<lambda>s. Obj [(''info'', prop_value s ''info''),
                 (''data'', Str (case number_value B (prop_value s ''value'') of
                                   Finite r \<Rightarrow> fixed_notation B r (nat f)
                                 | x \<Rightarrow> Number_toString B x))]) ss))
         boardInfo')"
    "outcome (sendData B (Arr ss) boardInfo precision net) = send_request B net"
proof -
  let ?b = "default_param boardInfo (Obj [])"
  let ?p = "default_param precision (Num (Finite 4))"
  have b: "?b \<noteq> Undefined" "?b \<noteq> Null"
    using assms(2) by (simp_all add: default_param_def)
  have pb: "prop_value ?b ''deviceMAC'' = prop_value boardInfo ''deviceMAC''"
    by (simp add: default_param_def prop_value_def own_prop_def)
  obtain boardInfo' where n: "normalize_deviceMAC B ?b = Inr boardInfo'"
    using normalize_deviceMAC_completes[of B ?b macString] assms(3) pb by auto
  have nn: "boardInfo' = Undefined \<or> boardInfo' = Null \<longleftrightarrow> ?b = Undefined \<or> ?b = Null"
    by (rule normalize_deviceMAC_result(1)[OF n])
  let ?entries = "map (\<lambda>s. Obj [(''info'', prop_value s ''info''),
                 (''data'', Str (case number_value B (prop_value s ''value'') of
                                   Finite r \<Rightarrow> fixed_notation B r (nat f)
                                 | x \<Rightarrow> Number_toString B x))]) ss"
  have "Array_map (Arr ss) (sensor_entry B ?p) = Inr (Arr ?entries)"
    using map_sensor_entries[OF assms(1,4,5,6,7)] by simp
  then have build: "build_payload B (Arr ss) boardInfo' ?p = Inr (payload_of (Arr ?entries) boardInfo')"
    using nn b by (subst build_payload_iff) auto
  show thesis
    using n build by (intro that[of boardInfo']) (simp_all add: sendData_def Let_def)
qed

section \<open>Facts about whole calls and the \<^verbatim>\<open>catch\<close> block\<close>

lemma sendData_call_built:
  assumes "send_url B overrideSendUrl sendKey boardKey = Inr url"
  shows "sendData_call B overrideSendUrl sendKey boardKey sensors boardInfo precision net =
     sendData B sensors boardInfo precision net"
  using assms by (simp add: sendData_call_def)

lemma sendData_call_url_throws:
  assumes "send_url B overrideSendUrl sendKey boardKey = Inl e"
  shows "sendData_call B overrideSendUrl sendKey boardKey sensors boardInfo precision net =
     \<lparr>boardInfo_after = default_param boardInfo (Obj []), request_body = None,
      outcome = Inl e\<rparr>"
  using assms by (simp add: sendData_call_def)

lemma send_url_completes:
  "completes (send_url B overrideSendUrl sendKey boardKey) \<longleftrightarrow>
     completes (String_js B (js_or overrideSendUrl (Str DEFAULT_SEND_URL))) \<and>
     completes (String_js B sendKey) \<and> completes (String_js B boardKey)"
  by (cases "String_js B (js_or overrideSendUrl (Str DEFAULT_SEND_URL))";
      cases "String_js B sendKey"; cases "String_js B boardKey")
     (simp_all add: send_url_def encodeURIComponent_def)

lemma receive_url_completes:
  "completes (receive_url B overrideReceiveUrl receiveKey boardKey recents) \<longleftrightarrow>
     completes (String_js B (js_or overrideReceiveUrl (Str DEFAULT_RECEIVE_URL))) \<and>
     completes (String_js B receiveKey) \<and> completes (String_js B boardKey)"
  by (cases "String_js B (js_or overrideReceiveUrl (Str DEFAULT_RECEIVE_URL))";
      cases "String_js B receiveKey"; cases "String_js B boardKey")
     (simp_all add: receive_url_def encodeURIComponent_def Let_def)

lemma failure_result_rejected:
  "failure_result B (Thrown err) =
     (if err = Undefined \<or> err = Null then Inl TypeError
      else Inr (Obj [(''ok'', Bool False), (''status'', Num (Finite 0)),
                     (''error'', hint_of (prop_value err ''message''))]))"
proof (cases "err = Undefined \<or> err = Null")
  case True
  then show ?thesis
    by (auto simp: failure_result_def)
next
  case False
  then have "error_message B (Thrown err) = Inr (prop_value err ''message'')"
    by (simp add: get_prop_defined)
  from failure_result_object[OF this] False show ?thesis
    by simp
qed

lemma failure_result_TypeError:
  "failure_result B TypeError =
     Inr (Obj [(''ok'', Bool False), (''status'', Num (Finite 0)),
               (''error'', hint_of (Str (EngineMessage B TypeError)))])"
  by (simp add: failure_result_def)

lemma receiveData_response:
  "receiveData B (Response ok status statusText bodyText) =
     (case JSON_parse B bodyText of
        None \<Rightarrow>
          Inr (Obj [(''ok'', Bool ok), (''status'', Num (Finite (of_nat status))),
                    (''body'', Str bodyText)])
      | Some json \<Rightarrow>
          if \<not> truthy json then
            Inr (Obj [(''ok'', Bool ok), (''status'', Num (Finite (of_nat status))),
                      (''body'', Str bodyText)])
          else (case flatten_feeds B json of
                  Inl e \<Rightarrow>
                    Inr (Obj [(''ok'', Bool False), (''status'', Num (Finite 0)),
                              (''error'', hint_of (Str (EngineMessage B TypeError)))])
                | Inr readings \<Rightarrow>
                    Inr (Obj [(''ok'', Bool ok), (''status'', Num (Finite (of_nat status))),
                              (''feeds'', Arr readings), (''body'', json)])))"
proof (cases "JSON_parse B bodyText")
  case None
  then show ?thesis
    by (simp add: receiveData_def)
next
  case (Some json)
  show ?thesis
  proof (cases "flatten_feeds B json")
    case (Inl e)
    then have "e = TypeError"
      by (rule flatten_feeds_error)
    with Inl Some show ?thesis
      by (simp add: receiveData_def failure_result_TypeError)
  next
    case (Inr readings)
    with Some show ?thesis
      by (simp add: receiveData_def)
  qed
qed

section \<open>Evaluation at concrete inputs\<close>

lemma floor_rat_numeral [simp]:
  "\<lfloor>numeral a / numeral b :: rat\<rfloor> = numeral a div numeral b"
  using floor_divide_of_int_eq[of "numeral a" "numeral b", where ?'a = rat] by simp

lemmas send_defs =
  sendData_def default_param_def normalize_deviceMAC_def build_payload_def sensor_entry_def
  send_request_def failure_result_def hint_of_def js_or_def own_prop_def Let_def

lemmas url_defs =
  sendData_call_def receiveData_call_def send_url_def receive_url_def encodeURIComponent_def
  DEFAULT_SEND_URL_def DEFAULT_RECEIVE_URL_def js_or_def default_param_def Let_def

lemmas toFixed_defs =
  toFixed_def ToIntegerOrInfinity_def fixed_notation_def fixed_digits_def insert_point_def
  Number_toString_def digits_small digits_large digit_char_def

lemmas normalizeMac_defs =
  normalizeMac_Str String_match_def line_terminator_def replace_non_hex_def toUpperCase_def
  toUpper_char_def is_hex_upper_def

lemma normalize_sample_mac:
  "normalizeMac B (Str ''aa-bb-cc-11-22-33'') = Inr (Str ''AA:BB:CC:11:22:33'')"
  by (simp add: normalizeMac_defs)

lemma normalize_empty_mac: "normalizeMac B (Str []) = Inr (Str [])"
  by (simp add: normalizeMac_def)

text \<open>Strings and numbers of arrays and objects, as an engine gives them.\<close>

lemma String_js_examples:
  "String_js B (Arr [Null, Str ''a'', Undefined]) = Inr '',a,''"
  "String_js B (Arr [Arr [Str ''a'', Str ''b''], Str ''c'']) = Inr ''a,b,c''"
  "String_js B (Arr [Obj [(''toString'', Num (Finite 1))]]) = Inl TypeError"
  "String_js B (Obj [(''valueOf'', Num (Finite 1))]) = Inr ''[object Object]''"
  "Number_js B (Obj [(''toString'', Null)]) = Inl TypeError"
  "Number_js B (Arr [Obj [(''toString'', Null)]]) = Inl TypeError"
  by simp_all

lemma toFixed_sample: "toFixed B (Finite (51 / 2)) (Num (Finite 4)) = Inr ''25.5000''"
  by (simp add: toFixed_defs)

text \<open>Outputs of the model of \<^verbatim>\<open>toFixed\<close> that agree with what an engine prints.\<close>

lemma toFixed_examples:
  "toFixed B (Finite (- 1 / 8)) (Num (Finite 2)) = Inr ''-0.13''"
  "toFixed B (Finite 0) (Num (Finite 2)) = Inr ''0.00''"
  "toFixed B (Finite (5 / 2)) (Num (Finite 0)) = Inr ''3''"
  "toFixed B (Finite (5 / 2)) Undefined = Inr ''3''"
  "toFixed B (Finite (1 / 1024)) (Num (Finite 2)) = Inr ''0.00''"
  "toFixed B (Finite (2469 / 2)) (Num (Finite 1)) = Inr ''1234.5''"
  "toFixed B (Finite 1) (Num (Finite 101)) = Inl RangeError"
  "toFixed B (Finite 1) (Num (Finite (- 1))) = Inl RangeError"
  "toFixed B (Finite 1) (Num (Infinity False)) = Inl RangeError"
  by (simp_all add: toFixed_defs)

lemma toFixed_NaN: "toFixed B NaN (Num (Finite 4)) = Inr ''NaN''"
  by (simp add: toFixed_defs)

lemma sample_parse_html: "JSON_parse sample_engine ''<html>'' = None"
  by (simp add: sample_engine_def scalar_feeds_body_def)

lemma sample_parse_object: "JSON_parse sample_engine ''{}'' = Some (Obj [])"
  by (simp add: sample_engine_def)

lemma sample_parse_scalar_feeds:
  "JSON_parse sample_engine scalar_feeds_body = Some (Obj [(''feeds'', Num (Finite 5))])"
  by (simp add: sample_engine_def scalar_feeds_body_def)

section \<open>Properties of the feed flattening\<close>

text \<open>
  Claim C1. For a board and a feed that can be read (neither is \<^verbatim>\<open>null\<close> or
  \<^verbatim>\<open>undefined\<close>), the index loop appends to \<^verbatim>\<open>result\<close> exactly the readings
  \<^verbatim>\<open>{info: board["info" + i], value: Number(feed["value" + i])}\<close> of the indices \<open>i\<close> from
  1 to 8 at which both \<^verbatim>\<open>board["info" + i]\<close> and \<^verbatim>\<open>feed["value" + i]\<close> are defined, and
  nothing for an index at which either is absent, provided every value at such an index
  can be converted to a number; otherwise the loop throws a \<^verbatim>\<open>TypeError\<close>. The values of
  a wide-feed document are numbers, and every feed whose values are primitive (not
  arrays or objects) can be converted. An empty-string label and a value of 0 count as
  defined.
\<close>

theorem reading_emitted_iff_both_defined:
  assumes "board \<noteq> Undefined" "board \<noteq> Null" "feed \<noteq> Undefined" "feed \<noteq> Null"
  shows "index_loop B board feed 1 result =
           (if feed_converts B board feed
            then Inr (result @ map (reading B board feed)
                                 (filter (emits board feed) [1, 2, 3, 4, 5, 6, 7, 8]))
            else Inl TypeError) \<and>
         (list_all (\<lambda>j. primitive (prop_value feed (valueKey j))) [1, 2, 3, 4, 5, 6, 7, 8] \<longrightarrow>
            index_loop B board feed 1 result =
              Inr (result @ map (reading B board feed)
                              (filter (emits board feed) [1, 2, 3, 4, 5, 6, 7, 8]))) \<and>
         emits (Obj [(infoKey i, Str [])]) (Obj [(valueKey i, Num (Finite 0))]) i"
proof -
  have loop: "index_loop B board feed 1 result =
           (if feed_converts B board feed
            then Inr (result @ map (reading B board feed)
                                 (filter (emits board feed) [1, 2, 3, 4, 5, 6, 7, 8]))
            else Inl TypeError)"
    using index_loop_feed_readings[OF assms, of B result] by (simp add: feed_readings_def)
  have "feed_converts B board feed"
    if "list_all (\<lambda>j. primitive (prop_value feed (valueKey j))) [1, 2, 3, 4, 5, 6, 7, 8]"
    using that by (simp add: feed_converts_def primitive_converts)
  with loop have "list_all (\<lambda>j. primitive (prop_value feed (valueKey j))) [1, 2, 3, 4, 5, 6, 7, 8] \<longrightarrow>
      index_loop B board feed 1 result =
        Inr (result @ map (reading B board feed)
                        (filter (emits board feed) [1, 2, 3, 4, 5, 6, 7, 8]))"
    by simp
  moreover have "emits (Obj [(infoKey i, Str [])]) (Obj [(valueKey i, Num (Finite 0))]) i"
    by (simp add: emits_def prop_value_def own_prop_def)
  ultimately show ?thesis
    using loop by simp
qed

text \<open>
  A board with an empty label at index 1 and a label at index 3, a feed with the value 0
  at index 1 and values at 2 and 3: indices 1 and 3 are emitted, index 2 is not. With
  an object that has a property of its own named \<^verbatim>\<open>toString\<close> as value 3, the loop
  throws.
\<close>

theorem reading_emitted_iff_both_defined_witness:
  "Obj [(''info1'', Str []), (''info3'', Str ''Light'')] \<noteq> Undefined \<and>
   Obj [(''info1'', Str []), (''info3'', Str ''Light'')] \<noteq> Null \<and>
   Obj [(''value1'', Num (Finite 0)), (''value2'', Num (Finite 99)), (''value3'', Num (Finite 20))]
     \<noteq> Undefined \<and>
   Obj [(''value1'', Num (Finite 0)), (''value2'', Num (Finite 99)), (''value3'', Num (Finite 20))]
     \<noteq> Null \<and>
   list_all (\<lambda>j. primitive (prop_value
       (Obj [(''value1'', Num (Finite 0)), (''value2'', Num (Finite 99)),
             (''value3'', Num (Finite 20))]) (valueKey j))) [1, 2, 3, 4, 5, 6, 7, 8] \<and>
   feed_converts sample_engine
     (Obj [(''info1'', Str []), (''info3'', Str ''Light'')])
     (Obj [(''value1'', Num (Finite 0)), (''value2'', Num (Finite 99)),
           (''value3'', Num (Finite 20))]) \<and>
   index_loop sample_engine
     (Obj [(''info1'', Str []), (''info3'', Str ''Light'')])
     (Obj [(''value1'', Num (Finite 0)), (''value2'', Num (Finite 99)),
           (''value3'', Num (Finite 20))]) 1 [] =
     Inr [Obj [(''info'', Str []), (''value'', Num (Finite 0))],
          Obj [(''info'', Str ''Light''), (''value'', Num (Finite 20))]] \<and>
   \<not> feed_converts sample_engine
     (Obj [(''info1'', Str []), (''info3'', Str ''Light'')])
     (Obj [(''value1'', Num (Finite 0)), (''value3'', Obj [(''toString'', Num (Finite 1))])]) \<and>
   index_loop sample_engine
     (Obj [(''info1'', Str []), (''info3'', Str ''Light'')])
     (Obj [(''value1'', Num (Finite 0)), (''value3'', Obj [(''toString'', Num (Finite 1))])])
     1 [] = Inl TypeError"
  using reading_emitted_iff_both_defined[of
      "Obj [(''info1'', Str []), (''info3'', Str ''Light'')]"
      "Obj [(''value1'', Num (Finite 0)), (''value2'', Num (Finite 99)),
            (''value3'', Num (Finite 20))]"
      sample_engine "[]" 1]
    reading_emitted_iff_both_defined[of
      "Obj [(''info1'', Str []), (''info3'', Str ''Light'')]"
      "Obj [(''value1'', Num (Finite 0)), (''value3'', Obj [(''toString'', Num (Finite 1))])]"
      sample_engine "[]" 1]
  by (simp add: emits_def reading_def prop_value_def own_prop_def key_simps feed_converts_def
      number_value_def)



section \<open>Properties of \<^verbatim>\<open>receiveData\<close> and \<^verbatim>\<open>sendData\<close>\<close>

text \<open>
  Claim C10. When the response body does not parse as JSON, \<^verbatim>\<open>receiveData\<close> returns
  \<^verbatim>\<open>{ok, status, body}\<close> with the raw text as body, and the object has no
  \<^verbatim>\<open>feeds\<close> property.
\<close>

theorem receiveData_unparseable_body:
  assumes "JSON_parse B text = None"
  shows "receiveData B (Response ok status statusText text) =
           Inr (Obj [(''ok'', Bool ok), (''status'', Num (Finite (of_nat status))),
                     (''body'', Str text)]) \<and>
         get_prop (Obj [(''ok'', Bool ok), (''status'', Num (Finite (of_nat status))),
                        (''body'', Str text)]) ''feeds'' = Inr Undefined"
  using assms by (simp add: receiveData_def own_prop_def)

text \<open>An HTML error page from a gateway.\<close>

theorem receiveData_unparseable_body_witness:
  "JSON_parse sample_engine ''<html>'' = None \<and>
   receiveData sample_engine (Response False 502 ''Bad Gateway'' ''<html>'') =
     Inr (Obj [(''ok'', Bool False), (''status'', Num (Finite 502)), (''body'', Str ''<html>'')])"
  using receiveData_unparseable_body[OF sample_parse_html, of False 502 "''Bad Gateway''"]
  by (simp add: sample_parse_html)

text \<open>
  Claim C9. In a call of \<^verbatim>\<open>sendData\<close> whose URL could be built, when
  \<^verbatim>\<open>boardInfo.deviceMAC\<close> is truthy and \<^verbatim>\<open>normalizeMac\<close> returns for it,
  \<^verbatim>\<open>sendData\<close> overwrites that property of the caller's object with the normalized
  MAC, whatever else the call does afterwards: the object keeps its properties in the
  same order, every other property keeps its value, and a payload that is built carries
  the normalized MAC. \<^verbatim>\<open>normalizeMac\<close> returns for every MAC that \<^verbatim>\<open>String\<close> can
  convert; when it throws, the call throws with the caller's object untouched and
  nothing requested.
\<close>

theorem sendData_overwrites_deviceMAC:
  assumes "send_url B overrideSendUrl sendKey boardKey = Inr url"
    and "get_prop boardInfo ''deviceMAC'' = Inr mac" and "truthy mac"
  shows "(\<forall>normalized. normalizeMac B mac = Inr normalized \<longrightarrow>
      (\<exists>kvs kvs'.
         boardInfo = Obj kvs \<and>
         boardInfo_after (sendData_call B overrideSendUrl sendKey boardKey sensors boardInfo
           precision net) = Obj kvs' \<and>
         map fst kvs' = map fst kvs \<and>
         get_prop (Obj kvs') ''deviceMAC'' = Inr normalized \<and>
         (\<forall>k. k \<noteq> ''deviceMAC'' \<longrightarrow> get_prop (Obj kvs') k = get_prop (Obj kvs) k) \<and>
         (\<forall>payload. request_body (sendData_call B overrideSendUrl sendKey boardKey sensors
              boardInfo precision net) = Some payload \<longrightarrow>
            then_js (get_prop payload ''boardInfo'') (\<lambda>bi. get_prop bi ''deviceMAC'') =
              Inr normalized))) \<and>
     (\<forall>e. normalizeMac B mac = Inl e \<longrightarrow>
        sendData_call B overrideSendUrl sendKey boardKey sensors boardInfo precision net =
          \<lparr>boardInfo_after = boardInfo, request_body = None, outcome = Inl e\<rparr>) \<and>
     (\<forall>str. String_js B mac = Inr str \<longrightarrow> (\<exists>normalized. normalizeMac B mac = Inr normalized))"
proof -
  let ?call = "sendData_call B overrideSendUrl sendKey boardKey sensors boardInfo precision net"
  have call: "?call = sendData B sensors boardInfo precision net"
    by (rule sendData_call_built[OF assms(1)])
  from assms(2,3) obtain kvs where obj: "boardInfo = Obj kvs"
    and mac: "map_of kvs ''deviceMAC'' = Some mac"
    by (rule get_prop_truthy_Obj)
  have dflt: "default_param boardInfo (Obj []) = boardInfo"
    using obj by (simp add: default_param_def)
  have pv: "prop_value boardInfo ''deviceMAC'' = mac"
    using assms(2) by (simp add: prop_value_def)
  have written: "\<exists>kvs kvs'.
         boardInfo = Obj kvs \<and>
         boardInfo_after ?call = Obj kvs' \<and>
         map fst kvs' = map fst kvs \<and>
         get_prop (Obj kvs') ''deviceMAC'' = Inr normalized \<and>
         (\<forall>k. k \<noteq> ''deviceMAC'' \<longrightarrow> get_prop (Obj kvs') k = get_prop (Obj kvs) k) \<and>
         (\<forall>payload. request_body ?call = Some payload \<longrightarrow>
            then_js (get_prop payload ''boardInfo'') (\<lambda>bi. get_prop bi ''deviceMAC'') =
              Inr normalized)"
    if n: "normalizeMac B mac = Inr normalized" for normalized
  proof -
    have tn: "truthy normalized"
      using normalizeMac_truthy[OF assms(3) n] .
    let ?after = "set_prop boardInfo ''deviceMAC'' normalized"
    have step: "normalize_deviceMAC B (default_param boardInfo (Obj [])) = Inr ?after"
      using normalize_deviceMAC_truthy[OF assms(2,3) n] dflt by simp
    have after: "boardInfo_after ?call = ?after"
      unfolding call by (rule boardInfo_after_sendData[OF step])
    have keys: "map fst (set_own kvs ''deviceMAC'' normalized) = map fst kvs"
      by (rule keys_set_own[OF mac])
    have same: "get_prop ?after ''deviceMAC'' = Inr normalized"
      using obj by (simp add: own_prop_def map_of_set_own)
    have others: "\<forall>k. k \<noteq> ''deviceMAC'' \<longrightarrow> get_prop ?after k = get_prop boardInfo k"
      by (simp add: get_prop_set_prop_other)
    have sent: "then_js (get_prop payload ''boardInfo'') (\<lambda>bi. get_prop bi ''deviceMAC'') =
        Inr normalized"
      if "request_body ?call = Some payload" for payload
    proof -
      from that have "request_body (sendData B sensors boardInfo precision net) = Some payload"
        by (simp only: call)
      from request_body_sendData[OF step this]
      obtain sensorData where "payload = payload_of sensorData ?after"
        by (auto simp: build_payload_iff)
      then show ?thesis
        using obj tn by (simp add: payload_deviceMAC prop_value_set_prop_same js_or_def)
    qed
    from obj after keys same others sent show ?thesis
      by auto
  qed
  have thrown: "?call = \<lparr>boardInfo_after = boardInfo, request_body = None, outcome = Inl e\<rparr>"
    if "normalizeMac B mac = Inl e" for e
  proof -
    have "normalize_deviceMAC B (default_param boardInfo (Obj [])) = Inl e"
      using that assms(3) pv dflt by (simp add: normalize_deviceMAC_throws)
    then show ?thesis
      by (simp add: call sendData_def Let_def dflt)
  qed
  have returns: "\<exists>normalized. normalizeMac B mac = Inr normalized"
    if "String_js B mac = Inr str" for str
    using that by (rule normalizeMac_returns)
  from written thrown returns show ?thesis
    by blast
qed

text \<open>
  A caller's object with an architecture and a lower-case, dashed MAC; and one whose
  MAC is an object that \<^verbatim>\<open>String\<close> cannot convert.
\<close>

theorem sendData_overwrites_deviceMAC_witness:
  "send_url sample_engine Null (Str ''key1'') (Str ''board1'') =
     Inr ''https://api.consentiumiot.com/v2/updateData?sendKey=key1&boardKey=board1'' \<and>
   get_prop (Obj [(''architecture'', Str ''ESP32''), (''deviceMAC'', Str ''aa-bb-cc-11-22-33'')])
     ''deviceMAC'' = Inr (Str ''aa-bb-cc-11-22-33'') \<and>
   truthy (Str ''aa-bb-cc-11-22-33'') \<and>
   normalizeMac sample_engine (Str ''aa-bb-cc-11-22-33'') = Inr (Str ''AA:BB:CC:11:22:33'') \<and>
   boardInfo_after (sendData_call sample_engine Null (Str ''key1'') (Str ''board1'') (Arr [])
     (Obj [(''architecture'', Str ''ESP32''), (''deviceMAC'', Str ''aa-bb-cc-11-22-33'')])
     Undefined (Response True 200 ''OK'' ''{}'')) =
     Obj [(''architecture'', Str ''ESP32''), (''deviceMAC'', Str ''AA:BB:CC:11:22:33'')] \<and>
   get_prop (Obj [(''deviceMAC'', Obj [(''toString'', Num (Finite 1))])]) ''deviceMAC'' =
     Inr (Obj [(''toString'', Num (Finite 1))]) \<and>
   truthy (Obj [(''toString'', Num (Finite 1))]) \<and>
   normalizeMac sample_engine (Obj [(''toString'', Num (Finite 1))]) = Inl TypeError \<and>
   sendData_call sample_engine Null (Str ''key1'') (Str ''board1'') (Arr [])
     (Obj [(''deviceMAC'', Obj [(''toString'', Num (Finite 1))])])
     Undefined (Response True 200 ''OK'' ''{}'') =
     \<lparr>boardInfo_after = Obj [(''deviceMAC'', Obj [(''toString'', Num (Finite 1))])],
      request_body = None, outcome = Inl TypeError\<rparr>"
proof -
  have url: "send_url sample_engine Null (Str ''key1'') (Str ''board1'') =
     Inr ''https://api.consentiumiot.com/v2/updateData?sendKey=key1&boardKey=board1''"
    by (simp add: url_defs sample_engine_def)
  have g: "get_prop (Obj [(''architecture'', Str ''ESP32''),
      (''deviceMAC'', Str ''aa-bb-cc-11-22-33'')]) ''deviceMAC'' = Inr (Str ''aa-bb-cc-11-22-33'')"
    by (simp add: own_prop_def)
  have t: "truthy (Str ''aa-bb-cc-11-22-33'')"
    by simp
  have g': "get_prop (Obj [(''deviceMAC'', Obj [(''toString'', Num (Finite 1))])]) ''deviceMAC'' =
     Inr (Obj [(''toString'', Num (Finite 1))])"
    by (simp add: own_prop_def)
  have t': "truthy (Obj [(''toString'', Num (Finite 1))])"
    by simp
  have n': "normalizeMac sample_engine (Obj [(''toString'', Num (Finite 1))]) = Inl TypeError"
    by (simp add: normalizeMac_def)
  from sendData_overwrites_deviceMAC[OF url g t, of "Arr []" Undefined
      "Response True 200 ''OK'' ''{}''"]
    sendData_overwrites_deviceMAC[OF url g' t', of "Arr []" Undefined
      "Response True 200 ''OK'' ''{}''"] url g' n'
  show ?thesis
    by (simp add: sendData_call_def send_defs normalize_sample_mac)
qed

text \<open>
  Claim C4, amended. In \<^verbatim>\<open>sendData\<close>, the \<^verbatim>\<open>deviceMAC\<close> of the document handed to
  \<^verbatim>\<open>fetch\<close> is \<^verbatim>\<open>normalizeMac(boardInfo.deviceMAC)\<close> when \<^verbatim>\<open>boardInfo.deviceMAC\<close> is
  truthy, which is the value as given when its stripped hex form does not have 12
  characters; a falsy \<^verbatim>\<open>deviceMAC\<close> (absent, \<^verbatim>\<open>null\<close>, the empty string) gives the
  default \<^verbatim>\<open>00:00:00:00:00:00\<close>. \<^verbatim>\<open>submitSensorData\<close> puts \<^verbatim>\<open>macAddress\<close> into
  its document as given.
\<close>

theorem sendData_payload_deviceMAC:
  assumes "get_prop (default_param boardInfo (Obj [])) ''deviceMAC'' = Inr mac"
    and "request_body (sendData B sensors boardInfo precision net) = Some payload"
  shows "then_js (get_prop payload ''boardInfo'') (\<lambda>bi. get_prop bi ''deviceMAC'') =
           (if truthy mac then normalizeMac B mac else Inr (Str ''00:00:00:00:00:00'')) \<and>
         (truthy mac \<longrightarrow>
            (\<exists>str. String_js B mac = Inr str \<and>
               (length (replace_non_hex (toUpperCase str)) \<noteq> 12 \<longrightarrow>
                  then_js (get_prop payload ''boardInfo'') (\<lambda>bi. get_prop bi ''deviceMAC'') =
                    Inr mac))) \<and>
         then_js (get_prop (submitted_body (submitSensorData B sensorArray macAddress architecture
                     firmwareVersion statusOTA signalStrength net')) ''boardInfo'')
           (\<lambda>bi. get_prop bi ''deviceMAC'') = Inr macAddress"
proof -
  let ?b = "default_param boardInfo (Obj [])"
  have mac: "prop_value ?b ''deviceMAC'' = mac"
    using assms(1) by (simp add: prop_value_def)
  obtain boardInfo' where n: "normalize_deviceMAC B ?b = Inr boardInfo'"
    using assms(2) by (cases rule: sendData_cases[of B boardInfo sensors precision net]) simp_all
  have falsy: "\<not> truthy (prop_value ?b ''deviceMAC'') \<longrightarrow> boardInfo' = ?b"
    by (rule normalize_deviceMAC_result(3)[OF n])
  have truthy: "truthy (prop_value ?b ''deviceMAC'') \<longrightarrow>
           normalizeMac B (prop_value ?b ''deviceMAC'') = Inr (prop_value boardInfo' ''deviceMAC'')"
    by (rule normalize_deviceMAC_result(4)[OF n])
  from request_body_sendData[OF n assms(2)]
  obtain sensorData where p: "payload = payload_of sensorData boardInfo'"
    by (auto simp: build_payload_iff)
  have sent: "then_js (get_prop payload ''boardInfo'') (\<lambda>bi. get_prop bi ''deviceMAC'') =
      Inr (js_or (prop_value boardInfo' ''deviceMAC'') (Str ''00:00:00:00:00:00''))"
    by (simp add: p payload_deviceMAC)
  have first: "then_js (get_prop payload ''boardInfo'') (\<lambda>bi. get_prop bi ''deviceMAC'') =
           (if truthy mac then normalizeMac B mac else Inr (Str ''00:00:00:00:00:00''))"
  proof (cases "truthy mac")
    case True
    with truthy mac have eq: "normalizeMac B mac = Inr (prop_value boardInfo' ''deviceMAC'')"
      by simp
    then have "truthy (prop_value boardInfo' ''deviceMAC'')"
      using normalizeMac_truthy[OF True] by simp
    with True eq sent show ?thesis
      by (simp add: js_or_def)
  next
    case False
    with falsy mac have "prop_value boardInfo' ''deviceMAC'' = mac"
      by simp
    with False sent show ?thesis
      by (simp add: js_or_def)
  qed
  have second: "\<exists>str. String_js B mac = Inr str \<and>
      (length (replace_non_hex (toUpperCase str)) \<noteq> 12 \<longrightarrow>
         then_js (get_prop payload ''boardInfo'') (\<lambda>bi. get_prop bi ''deviceMAC'') = Inr mac)"
    if t: "truthy mac"
  proof (cases "String_js B mac")
    case (Inl e)
    with t have "normalizeMac B mac = Inl e"
      by (simp add: normalizeMac_throws)
    with truthy mac t show ?thesis
      by simp
  next
    case (Inr str)
    have "normalizeMac B mac = Inr mac" if "length (replace_non_hex (toUpperCase str)) \<noteq> 12"
      using that Inr by (simp add: normalizeMac_def Let_def)
    with first t Inr show ?thesis
      by simp
  qed
  have third: "then_js (get_prop (submitted_body (submitSensorData B sensorArray macAddress
        architecture firmwareVersion statusOTA signalStrength net')) ''boardInfo'')
      (\<lambda>bi. get_prop bi ''deviceMAC'') = Inr macAddress"
    by (simp add: submitSensorData_def submit_payload_def Let_def own_prop_def)
  from first second third show ?thesis
    by blast
qed

text \<open>A dashed lower-case MAC reaches the document in its normalized form.\<close>

theorem sendData_payload_deviceMAC_witness:
  "get_prop (default_param (Obj [(''deviceMAC'', Str ''aa-bb-cc-11-22-33'')]) (Obj []))
     ''deviceMAC'' = Inr (Str ''aa-bb-cc-11-22-33'') \<and>
   request_body (sendData sample_engine (Arr [])
     (Obj [(''deviceMAC'', Str ''aa-bb-cc-11-22-33'')]) Undefined (Response True 200 ''OK'' ''{}''))
   = Some (payload_of (Arr []) (Obj [(''deviceMAC'', Str ''AA:BB:CC:11:22:33'')])) \<and>
   then_js (get_prop (payload_of (Arr []) (Obj [(''deviceMAC'', Str ''AA:BB:CC:11:22:33'')]))
              ''boardInfo'') (\<lambda>bi. get_prop bi ''deviceMAC'') =
     Inr (Str ''AA:BB:CC:11:22:33'')"
proof -
  have g: "get_prop (default_param (Obj [(''deviceMAC'', Str ''aa-bb-cc-11-22-33'')]) (Obj []))
     ''deviceMAC'' = Inr (Str ''aa-bb-cc-11-22-33'')"
    by (simp add: default_param_def own_prop_def)
  have r: "request_body (sendData sample_engine (Arr [])
     (Obj [(''deviceMAC'', Str ''aa-bb-cc-11-22-33'')]) Undefined (Response True 200 ''OK'' ''{}''))
   = Some (payload_of (Arr []) (Obj [(''deviceMAC'', Str ''AA:BB:CC:11:22:33'')]))"
    by (simp add: send_defs normalize_sample_mac payload_of_def prop_value_def)
  from sendData_payload_deviceMAC[OF g r] g r show ?thesis
    by (simp add: normalize_sample_mac)
qed

text \<open>
  Claim C4 as stated fails for \<^verbatim>\<open>submitSensorData\<close>, which has no normalizer and
  puts \<^verbatim>\<open>macAddress\<close> into its document as given, and for an empty-string MAC in
  \<^verbatim>\<open>sendData\<close>, which is replaced by the default rather than preserved.
\<close>

theorem submitSensorData_keeps_raw_mac:
  "submitted_body (submitSensorData sample_engine (Arr []) (Str ''aa-bb-cc-11-22-33'')
       (Str ''ESP32'') (Str ''1.0.1'') Undefined Undefined (Response True 200 ''OK'' ''{}'')) =
     Obj [(''sensors'', Obj [(''sensorData'', Arr [])]),
          (''boardInfo'', Obj [
             (''firmwareVersion'', Str ''1.0.1''),
             (''architecture'', Str ''ESP32''),
             (''statusOTA'', Bool False),
             (''deviceMAC'', Str ''aa-bb-cc-11-22-33'')])] \<and>
   normalizeMac sample_engine (Str ''aa-bb-cc-11-22-33'') = Inr (Str ''AA:BB:CC:11:22:33'') \<and>
   normalizeMac sample_engine (Str []) = Inr (Str []) \<and>
   request_body (sendData sample_engine (Arr []) (Obj [(''deviceMAC'', Str [])]) Undefined
       (Response True 200 ''OK'' ''{}'')) =
     Some (Obj [(''sensors'', Obj [(''sensorData'', Arr [])]),
                (''boardInfo'', Obj [
                   (''firmwareVersion'', Str ''0.0''),
                   (''architecture'', Str ''unknown''),
                   (''deviceMAC'', Str ''00:00:00:00:00:00''),
                   (''statusOTA'', Bool False),
                   (''signalStrength'', Num (Finite 0))])])"
  by (simp add: submitSensorData_def submit_payload_def send_defs normalize_sample_mac
      normalize_empty_mac)

text \<open>
  Claim C7, amended. In a call of \<^verbatim>\<open>sendData\<close> whose URL could be built, for an array
  of sensors none of which is \<^verbatim>\<open>null\<close> or \<^verbatim>\<open>undefined\<close> and whose values
  \<^verbatim>\<open>Number\<close> can convert, a \<^verbatim>\<open>boardInfo\<close> other than \<^verbatim>\<open>null\<close> whose \<^verbatim>\<open>deviceMAC\<close>
  \<^verbatim>\<open>String\<close> can convert, and a precision that converts to an integer \<open>f\<close> from 0 to 100
  (4 when the argument is left out), the payload is built and entry \<open>i\<close> of
  \<^verbatim>\<open>sensorData\<close> is \<^verbatim>\<open>{info: s.info, data: Number(s.value).toFixed(precision)}\<close>. For a
  finite value below \<open>10\<^sup>2\<^sup>1\<close> in magnitude that string is in fixed decimal notation with
  exactly \<open>f\<close> fraction digits, signed like the value, and its digits are those of the
  integer nearest to \<open>|x| * 10\<^sup>f\<close> (ties upwards); for \<^verbatim>\<open>NaN\<close> and the infinities it is
  \<^verbatim>\<open>NaN\<close>, \<^verbatim>\<open>Infinity\<close> or \<^verbatim>\<open>-Infinity\<close>. Every absent board metadata field gets
  its default. \<^verbatim>\<open>submitSensorData\<close> sends \<^verbatim>\<open>sensorArray\<close> as given.
\<close>

theorem sendData_payload_contents:
  assumes "send_url B overrideSendUrl sendKey boardKey = Inr url"
    and "\<forall>s\<in>set ss. s \<noteq> Undefined \<and> s \<noteq> Null \<and> completes (Number_js B (prop_value s ''value''))"
    and "boardInfo \<noteq> Null"
    and "String_js B (prop_value boardInfo ''deviceMAC'') = Inr macString"
    and "Number_js B (default_param precision (Num (Finite 4))) = Inr p"
    and "ToIntegerOrInfinity p = Some f"
    and "0 \<le> f" and "f \<le> 100"
  shows "\<exists>sensorData bi.
     request_body (sendData_call B overrideSendUrl sendKey boardKey (Arr ss) boardInfo
         precision net) =
       Some (Obj [(''sensors'', Obj [(''sensorData'', Arr sensorData)]),
                  (''boardInfo'', Obj bi)]) \<and>
     length sensorData = length ss \<and>
     (\<forall>i<length ss. \<exists>x d.
        Number_js B (prop_value (ss ! i) ''value'') = Inr x \<and>
        sensorData ! i = Obj [(''info'', prop_value (ss ! i) ''info''), (''data'', Str d)] \<and>
        toFixed B x (default_param precision (Num (Finite 4))) = Inr d \<and>
        (\<forall>r. x = Finite r \<longrightarrow> \<bar>r\<bar> < 10 ^ 21 \<longrightarrow>
           is_fixed_decimal (nat f) d \<and>
           ((\<exists>t. d = CHR ''-'' # t) \<longleftrightarrow> r < 0) \<and>
           digits_value (filter is_digit d) = nat \<lfloor>\<bar>r\<bar> * 10 ^ nat f + 1 / 2\<rfloor>) \<and>
        (x = NaN \<longrightarrow> d = ''NaN'') \<and>
        (x = Infinity False \<longrightarrow> d = ''Infinity'') \<and>
        (x = Infinity True \<longrightarrow> d = ''-Infinity'')) \<and>
     (precision = Undefined \<longrightarrow> f = 4) \<and>
     (prop_value boardInfo ''firmwareVersion'' = Undefined \<longrightarrow>
        map_of bi ''firmwareVersion'' = Some (Str ''0.0'')) \<and>
     (prop_value boardInfo ''architecture'' = Undefined \<longrightarrow>
        map_of bi ''architecture'' = Some (Str ''unknown'')) \<and>
     (prop_value boardInfo ''deviceMAC'' = Undefined \<longrightarrow>
        map_of bi ''deviceMAC'' = Some (Str ''00:00:00:00:00:00'')) \<and>
     (prop_value boardInfo ''statusOTA'' = Undefined \<longrightarrow>
        map_of bi ''statusOTA'' = Some (Bool False)) \<and>
     (prop_value boardInfo ''signalStrength'' = Undefined \<longrightarrow>
        map_of bi ''signalStrength'' = Some (Num (Finite 0))) \<and>
     get_prop (submitted_body (submitSensorData B sensorArray macAddress architecture
        firmwareVersion statusOTA signalStrength net')) ''sensors'' =
       Inr (Obj [(''sensorData'', sensorArray)])"
proof -
  let ?b = "default_param boardInfo (Obj [])"
  let ?p = "default_param precision (Num (Finite 4))"
  let ?call = "sendData_call B overrideSendUrl sendKey boardKey (Arr ss) boardInfo precision net"
  let ?data = "\<lambda>s. case number_value B (prop_value s ''value'') of
                      Finite r \<Rightarrow> fixed_notation B r (nat f)
                    | x \<Rightarrow> Number_toString B x"
  let ?entries = "map (\<lambda>s. Obj [(''info'', prop_value s ''info''), (''data'', Str (?data s))]) ss"
  have call: "?call = sendData B (Arr ss) boardInfo precision net"
    by (rule sendData_call_built[OF assms(1)])
  obtain boardInfo' where n: "normalize_deviceMAC B ?b = Inr boardInfo'"
    and body: "request_body (sendData B (Arr ss) boardInfo precision net) =
       Some (payload_of (Arr ?entries) boardInfo')"
    by (rule sendData_builds[OF assms(2-8)])
  have others: "\<forall>k. k \<noteq> ''deviceMAC'' \<longrightarrow> prop_value boardInfo' k = prop_value ?b k"
    by (rule normalize_deviceMAC_result(2)[OF n])
  have falsy: "\<not> truthy (prop_value ?b ''deviceMAC'') \<longrightarrow> boardInfo' = ?b"
    by (rule normalize_deviceMAC_result(3)[OF n])
  have pb: "prop_value ?b k = prop_value boardInfo k" for k
    by (simp add: default_param_def prop_value_def own_prop_def)
  define bi where "bi = [
      (''firmwareVersion'', js_or (prop_value boardInfo' ''firmwareVersion'') (Str ''0.0'')),
      (''architecture'', js_or (prop_value boardInfo' ''architecture'') (Str ''unknown'')),
      (''deviceMAC'', js_or (prop_value boardInfo' ''deviceMAC'') (Str ''00:00:00:00:00:00'')),
      (''statusOTA'', Bool (truthy (prop_value boardInfo' ''statusOTA''))),
      (''signalStrength'', js_or (prop_value boardInfo' ''signalStrength'') (Num (Finite 0)))]"
  have 1: "request_body ?call =
       Some (Obj [(''sensors'', Obj [(''sensorData'', Arr ?entries)]), (''boardInfo'', Obj bi)])"
    by (simp add: call body payload_of_def bi_def)
  have 2: "length ?entries = length ss"
    by simp
  have 3: "\<exists>x d.
        Number_js B (prop_value (ss ! i) ''value'') = Inr x \<and>
        ?entries ! i = Obj [(''info'', prop_value (ss ! i) ''info''), (''data'', Str d)] \<and>
        toFixed B x ?p = Inr d \<and>
        (\<forall>r. x = Finite r \<longrightarrow> \<bar>r\<bar> < 10 ^ 21 \<longrightarrow>
           is_fixed_decimal (nat f) d \<and>
           ((\<exists>t. d = CHR ''-'' # t) \<longleftrightarrow> r < 0) \<and>
           digits_value (filter is_digit d) = nat \<lfloor>\<bar>r\<bar> * 10 ^ nat f + 1 / 2\<rfloor>) \<and>
        (x = NaN \<longrightarrow> d = ''NaN'') \<and>
        (x = Infinity False \<longrightarrow> d = ''Infinity'') \<and>
        (x = Infinity True \<longrightarrow> d = ''-Infinity'')"
    if "i < length ss" for i
  proof -
    from that assms(2) have "completes (Number_js B (prop_value (ss ! i) ''value''))"
      by simp
    then obtain x where x: "Number_js B (prop_value (ss ! i) ''value'') = Inr x"
      by (auto simp: completes_iff)
    then have nv: "number_value B (prop_value (ss ! i) ''value'') = x"
      by (rule number_value_eq)
    have a: "?entries ! i =
        Obj [(''info'', prop_value (ss ! i) ''info''), (''data'', Str (?data (ss ! i)))]"
      using that by simp
    have b: "toFixed B x ?p = Inr (?data (ss ! i))"
      by (simp add: toFixed_in_range[OF assms(5-8)] nv split: jsnum.splits)
    have c: "is_fixed_decimal (nat f) (?data (ss ! i)) \<and>
           ((\<exists>t. ?data (ss ! i) = CHR ''-'' # t) \<longleftrightarrow> r < 0) \<and>
           digits_value (filter is_digit (?data (ss ! i))) = nat \<lfloor>\<bar>r\<bar> * 10 ^ nat f + 1 / 2\<rfloor>"
      if "x = Finite r" "\<bar>r\<bar> < 10 ^ 21" for r
      using fixed_notation_format[OF that(2), where f = "nat f" and B = B] that(1) nv by simp
    have d: "x = NaN \<longrightarrow> ?data (ss ! i) = ''NaN''"
      "x = Infinity False \<longrightarrow> ?data (ss ! i) = ''Infinity''"
      "x = Infinity True \<longrightarrow> ?data (ss ! i) = ''-Infinity''"
      by (simp_all add: nv Number_toString_def)
    from x a b c d show ?thesis
      by blast
  qed
  have 4: "precision = Undefined \<longrightarrow> f = 4"
    using assms(5,6) by (auto simp: default_param_def ToIntegerOrInfinity_def)
  have dm: "prop_value boardInfo ''deviceMAC'' = Undefined \<longrightarrow>
      prop_value boardInfo' ''deviceMAC'' = Undefined"
    using falsy pb by auto
  have ot: "k \<noteq> ''deviceMAC'' \<Longrightarrow> prop_value boardInfo' k = prop_value boardInfo k" for k
    using others pb by simp
  have 5: "prop_value boardInfo ''firmwareVersion'' = Undefined \<longrightarrow>
        map_of bi ''firmwareVersion'' = Some (Str ''0.0'')"
    "prop_value boardInfo ''architecture'' = Undefined \<longrightarrow>
        map_of bi ''architecture'' = Some (Str ''unknown'')"
    "prop_value boardInfo ''deviceMAC'' = Undefined \<longrightarrow>
        map_of bi ''deviceMAC'' = Some (Str ''00:00:00:00:00:00'')"
    "prop_value boardInfo ''statusOTA'' = Undefined \<longrightarrow>
        map_of bi ''statusOTA'' = Some (Bool False)"
    "prop_value boardInfo ''signalStrength'' = Undefined \<longrightarrow>
        map_of bi ''signalStrength'' = Some (Num (Finite 0))"
    using dm by (simp_all add: bi_def ot js_or_def)
  have 6: "get_prop (submitted_body (submitSensorData B sensorArray macAddress architecture
        firmwareVersion statusOTA signalStrength net')) ''sensors'' =
       Inr (Obj [(''sensorData'', sensorArray)])"
    by (simp add: submitSensorData_def submit_payload_def Let_def own_prop_def)
  from 1 2 3 4 5 6 show ?thesis
    by blast
qed

text \<open>One sensor reading 25.5, a board that only names its architecture.\<close>

theorem sendData_payload_contents_witness:
  "send_url sample_engine Null (Str ''key1'') (Str ''board1'') =
     Inr ''https://api.consentiumiot.com/v2/updateData?sendKey=key1&boardKey=board1'' \<and>
   Obj [(''info'', Str ''Temperature''), (''value'', Num (Finite (51 / 2)))] \<noteq> Undefined \<and>
   Obj [(''info'', Str ''Temperature''), (''value'', Num (Finite (51 / 2)))] \<noteq> Null \<and>
   Number_js sample_engine
     (prop_value (Obj [(''info'', Str ''Temperature''), (''value'', Num (Finite (51 / 2)))])
        ''value'') = Inr (Finite (51 / 2)) \<and>
   Obj [(''architecture'', Str ''ESP32'')] \<noteq> Null \<and>
   String_js sample_engine (prop_value (Obj [(''architecture'', Str ''ESP32'')]) ''deviceMAC'') =
     Inr ''undefined'' \<and>
   Number_js sample_engine (default_param Undefined (Num (Finite 4))) = Inr (Finite 4) \<and>
   ToIntegerOrInfinity (Finite 4) = Some 4 \<and>
   (0::int) \<le> 4 \<and> (4::int) \<le> 100 \<and>
   request_body (sendData_call sample_engine Null (Str ''key1'') (Str ''board1'')
     (Arr [Obj [(''info'', Str ''Temperature''), (''value'', Num (Finite (51 / 2)))]])
     (Obj [(''architecture'', Str ''ESP32'')]) Undefined (Response True 200 ''OK'' ''{}'')) =
   Some (Obj [(''sensors'', Obj [(''sensorData'',
                 Arr [Obj [(''info'', Str ''Temperature''), (''data'', Str ''25.5000'')]])]),
              (''boardInfo'', Obj [
                 (''firmwareVersion'', Str ''0.0''),
                 (''architecture'', Str ''ESP32''),
                 (''deviceMAC'', Str ''00:00:00:00:00:00''),
                 (''statusOTA'', Bool False),
                 (''signalStrength'', Num (Finite 0))])])"
proof -
  have url: "send_url sample_engine Null (Str ''key1'') (Str ''board1'') =
     Inr ''https://api.consentiumiot.com/v2/updateData?sendKey=key1&boardKey=board1''"
    by (simp add: url_defs sample_engine_def)
  have s: "\<forall>s\<in>set [Obj [(''info'', Str ''Temperature''), (''value'', Num (Finite (51 / 2)))]].
      s \<noteq> Undefined \<and> s \<noteq> Null \<and> completes (Number_js sample_engine (prop_value s ''value''))"
    by (simp add: prop_value_def own_prop_def)
  have b: "Obj [(''architecture'', Str ''ESP32'')] \<noteq> Null"
    by simp
  have m: "String_js sample_engine
      (prop_value (Obj [(''architecture'', Str ''ESP32'')]) ''deviceMAC'') = Inr ''undefined''"
    by (simp add: prop_value_def own_prop_def)
  have p: "Number_js sample_engine (default_param Undefined (Num (Finite 4))) = Inr (Finite 4)"
    by (simp add: default_param_def)
  have f: "ToIntegerOrInfinity (Finite 4) = Some 4"
    by (simp add: ToIntegerOrInfinity_def)
  from sendData_payload_contents[OF url s b m p f, of "Response True 200 ''OK'' ''{}''"] url m p f
  show ?thesis
    by (simp add: sendData_call_def send_defs toFixed_sample prop_value_def)
qed

text \<open>
  Claim C7 as stated fails: a sensor whose value is \<^verbatim>\<open>NaN\<close> is sent by \<^verbatim>\<open>sendData\<close>
  as the string \<^verbatim>\<open>NaN\<close>, which is not a fixed decimal; and \<^verbatim>\<open>submitSensorData\<close>
  forwards the sensor array unformatted and fills in no default for the absent
  firmware version, architecture and MAC.
\<close>

theorem payload_not_always_fixed_decimal:
  "request_body (sendData sample_engine
     (Arr [Obj [(''info'', Str ''Temperature''), (''value'', Num NaN)]])
     Undefined Undefined (Response True 200 ''OK'' ''{}'')) =
   Some (Obj [(''sensors'', Obj [(''sensorData'',
                 Arr [Obj [(''info'', Str ''Temperature''), (''data'', Str ''NaN'')]])]),
              (''boardInfo'', Obj [
                 (''firmwareVersion'', Str ''0.0''),
                 (''architecture'', Str ''unknown''),
                 (''deviceMAC'', Str ''00:00:00:00:00:00''),
                 (''statusOTA'', Bool False),
                 (''signalStrength'', Num (Finite 0))])]) \<and>
   \<not> is_fixed_decimal 4 ''NaN'' \<and>
   submitted_body (submitSensorData sample_engine
     (Arr [Obj [(''info'', Str ''Temperature''), (''value'', Num (Finite (51 / 2)))]])
     Undefined Undefined Undefined Undefined Undefined (Response True 200 ''OK'' ''{}'')) =
   Obj [(''sensors'', Obj [(''sensorData'',
           Arr [Obj [(''info'', Str ''Temperature''), (''value'', Num (Finite (51 / 2)))]])]),
        (''boardInfo'', Obj [
           (''firmwareVersion'', Undefined),
           (''architecture'', Undefined),
           (''statusOTA'', Bool False),
           (''deviceMAC'', Undefined)])]"
  by (simp add: send_defs toFixed_NaN submitSensorData_def submit_payload_def
      is_fixed_decimal_def is_digit_def)

text \<open>
  Claim C5, amended. \<^verbatim>\<open>sendData\<close> and \<^verbatim>\<open>receiveData\<close> return failures as result
  objects, and throw at these points only:
  \<^item> when \<^verbatim>\<open>fetch\<close> rejects with a value \<^verbatim>\<open>err\<close> other than \<^verbatim>\<open>null\<close> and
    \<^verbatim>\<open>undefined\<close>, both return \<^verbatim>\<open>{ok: false, status: 0, error: hint}\<close>, where
    \<^verbatim>\<open>hint\<close> is the fixed hint text if \<^verbatim>\<open>err.message\<close> is a string containing
    \<^verbatim>\<open>failed to fetch\<close> in any letter case, and \<^verbatim>\<open>err.message\<close> otherwise; when it
    rejects with \<^verbatim>\<open>null\<close> or \<^verbatim>\<open>undefined\<close>, reading \<^verbatim>\<open>err.message\<close> in the
    \<^verbatim>\<open>catch\<close> block throws a \<^verbatim>\<open>TypeError\<close>;
  \<^item> when a response arrives, the \<^verbatim>\<open>try\<close> block of \<^verbatim>\<open>sendData\<close> returns its
    \<^verbatim>\<open>ok\<close> flag and status with the parsed body, or the raw text if it does not parse,
    whatever the status;
  \<^item> when a response arrives, \<^verbatim>\<open>receiveData\<close> returns \<^verbatim>\<open>{ok, status, body: text}\<close>
    for a body that does not parse or parses to a falsy value,
    \<^verbatim>\<open>{ok, status, feeds, body}\<close> when the flattening returns, and the
    \<^verbatim>\<open>{ok: false, status: 0, error}\<close> of its \<^verbatim>\<open>catch\<close> block, with the engine's
    message, when the flattening throws;
  \<^item> a call whose URL cannot be built (the base URL or a key cannot be converted to a
    string) throws before anything else happens;
  \<^item> a call of \<^verbatim>\<open>sendData\<close> that requests nothing has thrown before its \<^verbatim>\<open>try\<close>
    block, and one that requests returns or throws what the \<^verbatim>\<open>try\<close> and \<^verbatim>\<open>catch\<close>
    blocks do; it requests whenever the URL can be built, the sensors are an array of
    values other than \<^verbatim>\<open>null\<close> and \<^verbatim>\<open>undefined\<close> with convertible values,
    \<^verbatim>\<open>boardInfo\<close> is not \<^verbatim>\<open>null\<close> and has a convertible \<^verbatim>\<open>deviceMAC\<close>, and the
    precision is from 0 to 100;
  \<^item> the request of \<^verbatim>\<open>submitSensorData\<close> throws whenever \<^verbatim>\<open>fetch\<close> rejects and
    whenever the status is not ok.
\<close>

theorem sendData_receiveData_return_failures:
  "send_request B (Rejected err) =
     (if err = Undefined \<or> err = Null then Inl TypeError
      else Inr (Obj [(''ok'', Bool False), (''status'', Num (Finite 0)),
                     (''error'', hint_of (prop_value err ''message''))])) \<and>
   receiveData B (Rejected err) =
     (if err = Undefined \<or> err = Null then Inl TypeError
      else Inr (Obj [(''ok'', Bool False), (''status'', Num (Finite 0)),
                     (''error'', hint_of (prop_value err ''message''))])) \<and>
   send_request B (Response ok status statusText bodyText) =
     Inr (Obj [(''ok'', Bool ok), (''status'', Num (Finite (of_nat status))),
               (''body'', case JSON_parse B bodyText of None \<Rightarrow> Str bodyText | Some parsed \<Rightarrow> parsed)]) \<and>
   receiveData B (Response ok status statusText bodyText) =
     (case JSON_parse B bodyText of
        None \<Rightarrow>
          Inr (Obj [(''ok'', Bool ok), (''status'', Num (Finite (of_nat status))),
                    (''body'', Str bodyText)])
      | Some json \<Rightarrow>
          if \<not> truthy json then
            Inr (Obj [(''ok'', Bool ok), (''status'', Num (Finite (of_nat status))),
                      (''body'', Str bodyText)])
          else (case flatten_feeds B json of
                  Inl e \<Rightarrow>
                    Inr (Obj [(''ok'', Bool False), (''status'', Num (Finite 0)),
                              (''error'', hint_of (Str (EngineMessage B TypeError)))])
                | Inr readings \<Rightarrow>
                    Inr (Obj [(''ok'', Bool ok), (''status'', Num (Finite (of_nat status))),
                              (''feeds'', Arr readings), (''body'', json)]))) \<and>
   (completes (send_url B overrideSendUrl sendKey boardKey) \<longleftrightarrow>
      completes (String_js B (js_or overrideSendUrl (Str DEFAULT_SEND_URL))) \<and>
      completes (String_js B sendKey) \<and> completes (String_js B boardKey)) \<and>
   (completes (receive_url B overrideReceiveUrl receiveKey boardKey recents) \<longleftrightarrow>
      completes (String_js B (js_or overrideReceiveUrl (Str DEFAULT_RECEIVE_URL))) \<and>
      completes (String_js B receiveKey) \<and> completes (String_js B boardKey)) \<and>
   (\<forall>e. send_url B overrideSendUrl sendKey boardKey = Inl e \<longrightarrow>
      sendData_call B overrideSendUrl sendKey boardKey sensors boardInfo precision net =
        \<lparr>boardInfo_after = default_param boardInfo (Obj []), request_body = None,
         outcome = Inl e\<rparr>) \<and>
   (\<forall>e. receive_url B overrideReceiveUrl receiveKey boardKey recents = Inl e \<longrightarrow>
      receiveData_call B overrideReceiveUrl receiveKey boardKey recents net = Inl e) \<and>
   (completes (receive_url B overrideReceiveUrl receiveKey boardKey recents) \<longrightarrow>
      receiveData_call B overrideReceiveUrl receiveKey boardKey recents net =
        receiveData B net) \<and>
   (request_body (sendData_call B overrideSendUrl sendKey boardKey sensors boardInfo precision
        net) \<noteq> None \<longrightarrow>
      outcome (sendData_call B overrideSendUrl sendKey boardKey sensors boardInfo precision net) =
        send_request B net) \<and>
   (request_body (sendData_call B overrideSendUrl sendKey boardKey sensors boardInfo precision
        net) = None \<longrightarrow>
      (\<exists>e. outcome (sendData_call B overrideSendUrl sendKey boardKey sensors boardInfo precision
              net) = Inl e)) \<and>
   (completes (send_url B overrideSendUrl sendKey boardKey) \<and>
    (\<forall>s\<in>set ss. s \<noteq> Undefined \<and> s \<noteq> Null \<and>
       completes (Number_js B (prop_value s ''value''))) \<and>
    boardInfo \<noteq> Null \<and> completes (String_js B (prop_value boardInfo ''deviceMAC'')) \<and>
    (\<exists>p f. Number_js B (default_param precision (Num (Finite 4))) = Inr p \<and>
       ToIntegerOrInfinity p = Some f \<and> 0 \<le> f \<and> f \<le> 100) \<longrightarrow>
      request_body (sendData_call B overrideSendUrl sendKey boardKey (Arr ss) boardInfo
        precision net) \<noteq> None \<and>
      outcome (sendData_call B overrideSendUrl sendKey boardKey (Arr ss) boardInfo precision
        net) = send_request B net) \<and>
   (\<exists>e. submit_request B (Rejected err) = Inl e) \<and>
   (\<not> ok \<longrightarrow> (\<exists>e. submit_request B (Response ok status statusText bodyText) = Inl e))"
proof -
  let ?call = "sendData_call B overrideSendUrl sendKey boardKey sensors boardInfo precision net"
  have rejected_send: "send_request B (Rejected err) =
     (if err = Undefined \<or> err = Null then Inl TypeError
      else Inr (Obj [(''ok'', Bool False), (''status'', Num (Finite 0)),
                     (''error'', hint_of (prop_value err ''message''))]))"
    by (simp only: send_request_def fetch_outcome.case failure_result_rejected)
  have rejected_receive: "receiveData B (Rejected err) =
     (if err = Undefined \<or> err = Null then Inl TypeError
      else Inr (Obj [(''ok'', Bool False), (''status'', Num (Finite 0)),
                     (''error'', hint_of (prop_value err ''message''))]))"
    by (simp only: receiveData_def fetch_outcome.case failure_result_rejected)
  have sent: "send_request B (Response ok status statusText bodyText) =
     Inr (Obj [(''ok'', Bool ok), (''status'', Num (Finite (of_nat status))),
               (''body'', case JSON_parse B bodyText of None \<Rightarrow> Str bodyText | Some parsed \<Rightarrow> parsed)])"
    by (simp add: send_request_def)
  note received = receiveData_response[of B ok status statusText bodyText]
  note send_url_iff = send_url_completes[of B overrideSendUrl sendKey boardKey]
  note receive_url_iff = receive_url_completes[of B overrideReceiveUrl receiveKey boardKey recents]
  have url_send: "\<forall>e. send_url B overrideSendUrl sendKey boardKey = Inl e \<longrightarrow>
      ?call = \<lparr>boardInfo_after = default_param boardInfo (Obj []), request_body = None,
         outcome = Inl e\<rparr>"
    by (simp add: sendData_call_url_throws)
  have url_receive: "\<forall>e. receive_url B overrideReceiveUrl receiveKey boardKey recents = Inl e \<longrightarrow>
      receiveData_call B overrideReceiveUrl receiveKey boardKey recents net = Inl e"
    by (simp add: receiveData_call_def)
  have call_receive: "completes (receive_url B overrideReceiveUrl receiveKey boardKey recents) \<longrightarrow>
      receiveData_call B overrideReceiveUrl receiveKey boardKey recents net = receiveData B net"
    by (auto simp: receiveData_call_def completes_iff)
  have built: "outcome ?call = send_request B net" if "request_body ?call \<noteq> None"
  proof (cases "send_url B overrideSendUrl sendKey boardKey")
    case (Inl e)
    with that show ?thesis
      by (simp add: sendData_call_url_throws)
  next
    case (Inr url)
    with that show ?thesis
      unfolding sendData_call_built[OF Inr]
      by (cases rule: sendData_cases[of B boardInfo sensors precision net]) simp_all
  qed
  have thrown: "\<exists>e. outcome ?call = Inl e" if "request_body ?call = None"
  proof (cases "send_url B overrideSendUrl sendKey boardKey")
    case (Inl e)
    then show ?thesis
      by (simp add: sendData_call_url_throws)
  next
    case (Inr url)
    with that show ?thesis
      unfolding sendData_call_built[OF Inr]
      by (cases rule: sendData_cases[of B boardInfo sensors precision net]) simp_all
  qed
  have wellformed:
    "request_body (sendData_call B overrideSendUrl sendKey boardKey (Arr ss) boardInfo
        precision net) \<noteq> None \<and>
     outcome (sendData_call B overrideSendUrl sendKey boardKey (Arr ss) boardInfo precision
        net) = send_request B net"
    if wf: "completes (send_url B overrideSendUrl sendKey boardKey) \<and>
      (\<forall>s\<in>set ss. s \<noteq> Undefined \<and> s \<noteq> Null \<and>
         completes (Number_js B (prop_value s ''value''))) \<and>
      boardInfo \<noteq> Null \<and> completes (String_js B (prop_value boardInfo ''deviceMAC'')) \<and>
      (\<exists>p f. Number_js B (default_param precision (Num (Finite 4))) = Inr p \<and>
         ToIntegerOrInfinity p = Some f \<and> 0 \<le> f \<and> f \<le> 100)"
  proof -
    from wf obtain url where url: "send_url B overrideSendUrl sendKey boardKey = Inr url"
      by (auto simp: completes_iff)
    from wf obtain macString
      where m: "String_js B (prop_value boardInfo ''deviceMAC'') = Inr macString"
      by (auto simp: completes_iff)
    from wf obtain p f where p: "Number_js B (default_param precision (Num (Finite 4))) = Inr p"
      "ToIntegerOrInfinity p = Some f" "0 \<le> f" "f \<le> 100"
      by blast
    from wf have s: "\<forall>s\<in>set ss. s \<noteq> Undefined \<and> s \<noteq> Null \<and>
         completes (Number_js B (prop_value s ''value''))"
      and b: "boardInfo \<noteq> Null"
      by blast+
    show ?thesis
      unfolding sendData_call_built[OF url]
      by (rule sendData_builds[OF s b m p, of net]) simp
  qed
  have caught: "\<exists>e'. then_js (error_message B e) (\<lambda>logged. Inl e) = Inl e'" for e :: js_error
    by (cases "error_message B e") simp_all
  have submit_rejected: "\<exists>e. submit_request B (Rejected err) = Inl e"
    using caught[of "Thrown err"] by (simp add: submit_request_def)
  have submit_not_ok: "\<exists>e. submit_request B (Response ok status statusText bodyText) = Inl e"
    if "\<not> ok"
  proof (cases "JSON_parse B bodyText")
    case None
    with that show ?thesis
      by (simp add: submit_request_def)
  next
    case (Some responseData)
    show ?thesis
    proof (cases "get_prop responseData ''message''")
      case (Inl e)
      with Some that caught[of e] show ?thesis
        by (simp add: submit_request_def)
    next
      case (Inr message)
      show ?thesis
      proof (cases "String_js B (js_or message (Str statusText))")
        case e: (Inl e)
        with Inr Some that caught[of e] show ?thesis
          by (simp add: submit_request_def)
      next
        case reason: (Inr reason)
        with Inr Some that show ?thesis
          by (simp add: submit_request_def Error_object_def)
      qed
    qed
  qed
  show ?thesis
    apply (intro conjI)
                 apply (rule rejected_send)
                apply (rule rejected_receive)
               apply (rule sent)
              apply (rule received)
             apply (rule send_url_iff)
            apply (rule receive_url_iff)
           apply (rule url_send)
          apply (rule url_receive)
         apply (rule call_receive)
        apply (rule impI, erule built)
       apply (rule impI, erule thrown)
      apply (rule impI, erule wellformed)
     apply (rule submit_rejected)
    apply (rule impI, erule submit_not_ok)
    done
qed

text \<open>
  A failed fetch gets the hint text from both functions; an HTML error page and an
  empty JSON object come back with their status; feeds that cannot be iterated end in
  the \<^verbatim>\<open>catch\<close> block; a key that cannot be converted makes the call throw, and so
  do missing sensors.
\<close>

theorem sendData_receiveData_return_failures_witness:
  "receiveData sample_engine (Rejected (Error_object ''Failed to fetch'')) =
     Inr (Obj [(''ok'', Bool False), (''status'', Num (Finite 0)), (''error'', Str fetch_hint)]) \<and>
   completes (send_url sample_engine Null (Str ''key1'') (Str ''board1'')) \<and>
   completes (receive_url sample_engine Null (Str ''key1'') (Str ''board1'') Undefined) \<and>
   outcome (sendData_call sample_engine Null (Str ''key1'') (Str ''board1'') (Arr []) Undefined
              Undefined (Rejected (Error_object ''Failed to fetch''))) =
     Inr (Obj [(''ok'', Bool False), (''status'', Num (Finite 0)), (''error'', Str fetch_hint)]) \<and>
   outcome (sendData_call sample_engine Null (Str ''key1'') (Str ''board1'') (Arr []) Undefined
              Undefined (Response False 500 ''Internal Server Error'' ''<html>'')) =
     Inr (Obj [(''ok'', Bool False), (''status'', Num (Finite 500)), (''body'', Str ''<html>'')]) \<and>
   receiveData_call sample_engine Null (Str ''key1'') (Str ''board1'') Undefined
       (Response False 404 ''Not Found'' ''{}'') =
     Inr (Obj [(''ok'', Bool False), (''status'', Num (Finite 404)), (''feeds'', Arr []),
               (''body'', Obj [])]) \<and>
   flatten_feeds sample_engine (Obj [(''feeds'', Num (Finite 5))]) = Inl TypeError \<and>
   receiveData sample_engine (Response True 200 ''OK'' scalar_feeds_body) =
     Inr (Obj [(''ok'', Bool False), (''status'', Num (Finite 0)),
               (''error'', Str ''engine error'')]) \<and>
   send_url sample_engine Null (Obj [(''toString'', Num (Finite 1))]) (Str ''board1'') =
     Inl TypeError \<and>
   outcome (sendData_call sample_engine Null (Obj [(''toString'', Num (Finite 1))])
              (Str ''board1'') (Arr []) Undefined Undefined
              (Response True 200 ''OK'' ''{}'')) = Inl TypeError \<and>
   request_body (sendData_call sample_engine Null (Str ''key1'') (Str ''board1'') Undefined
       Undefined Undefined (Response True 200 ''OK'' ''{}'')) = None \<and>
   outcome (sendData_call sample_engine Null (Str ''key1'') (Str ''board1'') Undefined
       Undefined Undefined (Response True 200 ''OK'' ''{}'')) = Inl TypeError \<and>
   submit_request sample_engine (Response False 500 ''Internal Server Error'' ''{}'') =
     Inl (Thrown (Error_object ''API request failed with status 500: Internal Server Error''))"
proof -
  have hint: "hint_of (prop_value (Error_object ''Failed to fetch'') ''message'') = Str fetch_hint"
    by (simp add: hint_of_def Error_object_def prop_value_def own_prop_def toLowerCase_def
        toLower_char_def)
  have flat: "flatten_feeds sample_engine (Obj []) = Inr []"
    by (simp add: flatten_feeds_def own_prop_def js_or_def)
  have url: "send_url sample_engine Null (Str ''key1'') (Str ''board1'') =
     Inr ''https://api.consentiumiot.com/v2/updateData?sendKey=key1&boardKey=board1''"
    by (simp add: url_defs sample_engine_def)
  have rurl: "receive_url sample_engine Null (Str ''key1'') (Str ''board1'') Undefined =
     Inr ''https://api.consentiumiot.com/getData?recents=true&receiveKey=key1&boardKey=board1''"
    by (simp add: url_defs sample_engine_def)
  have bad: "send_url sample_engine Null (Obj [(''toString'', Num (Finite 1))]) (Str ''board1'') =
     Inl TypeError"
    by (simp add: url_defs)
  have none: "request_body (sendData_call sample_engine Null (Str ''key1'') (Str ''board1'')
       Undefined Undefined Undefined (Response True 200 ''OK'' ''{}'')) = None"
    "outcome (sendData_call sample_engine Null (Str ''key1'') (Str ''board1'') Undefined
       Undefined Undefined (Response True 200 ''OK'' ''{}'')) = Inl TypeError"
    by (simp_all add: sendData_call_def url send_defs)
  have submit: "submit_request sample_engine
      (Response False 500 ''Internal Server Error'' ''{}'') =
     Inl (Thrown (Error_object ''API request failed with status 500: Internal Server Error''))"
    by (simp add: submit_request_def sample_parse_object Error_object_def own_prop_def js_or_def
        digits_small digits_large digit_char_def)
  have p: "Number_js sample_engine (default_param Undefined (Num (Finite 4))) = Inr (Finite 4)"
    "ToIntegerOrInfinity (Finite 4) = Some 4"
    by (simp_all add: default_param_def ToIntegerOrInfinity_def)
  note good = sendData_receiveData_return_failures[where B = sample_engine
      and err = "Error_object ''Failed to fetch''" and ok = False and status = 404
      and statusText = "''Not Found''" and bodyText = "''{}''"
      and overrideSendUrl = Null and sendKey = "Str ''key1''" and boardKey = "Str ''board1''"
      and overrideReceiveUrl = Null and receiveKey = "Str ''key1''" and recents = Undefined
      and sensors = "Arr []" and boardInfo = Undefined and precision = Undefined
      and net = "Rejected (Error_object ''Failed to fetch'')" and ss = "[]"]
  have a: "receiveData sample_engine (Rejected (Error_object ''Failed to fetch'')) =
     Inr (Obj [(''ok'', Bool False), (''status'', Num (Finite 0)), (''error'', Str fetch_hint)])"
    using good hint by (simp add: Error_object_def)
  have b: "completes (send_url sample_engine Null (Str ''key1'') (Str ''board1''))"
    "completes (receive_url sample_engine Null (Str ''key1'') (Str ''board1'') Undefined)"
    by (simp_all add: url rurl)
  have c: "outcome (sendData_call sample_engine Null (Str ''key1'') (Str ''board1'') (Arr [])
              Undefined Undefined (Rejected (Error_object ''Failed to fetch''))) =
     Inr (Obj [(''ok'', Bool False), (''status'', Num (Finite 0)), (''error'', Str fetch_hint)])"
    by (simp add: sendData_call_def url send_defs Error_object_def toLowerCase_def
        toLower_char_def)
  have d: "outcome (sendData_call sample_engine Null (Str ''key1'') (Str ''board1'') (Arr [])
              Undefined Undefined (Response False 500 ''Internal Server Error'' ''<html>'')) =
     Inr (Obj [(''ok'', Bool False), (''status'', Num (Finite 500)), (''body'', Str ''<html>'')])"
    by (simp add: sendData_call_def url send_defs sample_parse_html)
  have e: "receiveData_call sample_engine Null (Str ''key1'') (Str ''board1'') Undefined
       (Response False 404 ''Not Found'' ''{}'') =
     Inr (Obj [(''ok'', Bool False), (''status'', Num (Finite 404)), (''feeds'', Arr []),
               (''body'', Obj [])])"
    by (simp add: receiveData_call_def rurl receiveData_def sample_parse_object flat)
  have f: "outcome (sendData_call sample_engine Null (Obj [(''toString'', Num (Finite 1))])
              (Str ''board1'') (Arr []) Undefined Undefined
              (Response True 200 ''OK'' ''{}'')) = Inl TypeError"
    by (simp add: sendData_call_def bad)
  have scalar: "flatten_feeds sample_engine (Obj [(''feeds'', Num (Finite 5))]) = Inl TypeError"
    by (simp add: flatten_feeds_def own_prop_def js_or_def)
  have message: "hint_of (Str (EngineMessage sample_engine TypeError)) = Str ''engine error''"
    by (simp add: hint_of_def sample_engine_def toLowerCase_def toLower_char_def)
  note caught = sendData_receiveData_return_failures[where B = sample_engine
      and err = "Error_object ''Failed to fetch''" and ok = True and status = 200
      and statusText = "''OK''" and bodyText = scalar_feeds_body
      and overrideSendUrl = Null and sendKey = "Str ''key1''" and boardKey = "Str ''board1''"
      and overrideReceiveUrl = Null and receiveKey = "Str ''key1''" and recents = Undefined
      and sensors = "Arr []" and boardInfo = Undefined and precision = Undefined
      and net = "Rejected (Error_object ''Failed to fetch'')" and ss = "[]"]
  have h: "receiveData sample_engine (Response True 200 ''OK'' scalar_feeds_body) =
     Inr (Obj [(''ok'', Bool False), (''status'', Num (Finite 0)),
               (''error'', Str ''engine error'')])"
    using caught by (simp add: sample_parse_scalar_feeds scalar message)
  from a b c d e scalar h bad f none submit show ?thesis
    by simp
qed

text \<open>
  Claim C5 as stated fails: \<^verbatim>\<open>submitSensorData\<close> throws the rejection of
  \<^verbatim>\<open>fetch\<close> again and throws an \<^verbatim>\<open>Error\<close> on a status that is not ok, as its
  documentation says; \<^verbatim>\<open>sendData\<close> called without sensors throws a \<^verbatim>\<open>TypeError\<close>
  before its \<^verbatim>\<open>try\<close> block; and both \<^verbatim>\<open>sendData\<close> and \<^verbatim>\<open>receiveData\<close> throw when
  \<^verbatim>\<open>fetch\<close> rejects with \<^verbatim>\<open>null\<close>.
\<close>

theorem submitSensorData_throws:
  "submit_outcome (submitSensorData sample_engine (Arr []) (Str ''AA:BB:CC:11:22:33'')
       (Str ''ESP32'') (Str ''1.0.1'') Undefined Undefined
       (Rejected (Error_object ''fetch failed''))) =
     Inl (Thrown (Error_object ''fetch failed'')) \<and>
   submit_outcome (submitSensorData sample_engine (Arr []) (Str ''AA:BB:CC:11:22:33'')
       (Str ''ESP32'') (Str ''1.0.1'') Undefined Undefined
       (Response False 500 ''Internal Server Error'' ''{}'')) =
     Inl (Thrown (Error_object ''API request failed with status 500: Internal Server Error'')) \<and>
   outcome (sendData_call sample_engine Null (Str ''key1'') (Str ''board1'') Undefined Undefined
       Undefined (Response True 200 ''OK'' ''{}'')) = Inl TypeError \<and>
   outcome (sendData_call sample_engine Null (Str ''key1'') (Str ''board1'') (Arr []) Undefined
       Undefined (Rejected Null)) = Inl TypeError \<and>
   receiveData_call sample_engine Null (Str ''key1'') (Str ''board1'') Undefined
       (Rejected Null) = Inl TypeError"
  by (simp add: submitSensorData_def submit_request_def sample_parse_object Error_object_def
      own_prop_def digits_small digits_large digit_char_def send_defs url_defs receiveData_def
      sample_engine_def)

end
